theory Spec2Isabelle
  imports Main "HOL-Library.AList" "HOL-Library.Sublist"
begin

section \<open>Common Python notions\<close>

text \<open>
  A Python \<open>str\<close> whose characters matter one by one is a list of Unicode code points
  (\<open>pystr\<close>); \<open>ustr\<close> writes an ASCII literal.  Identifiers, URLs and log lines, which
  are only compared and concatenated, are \<open>string\<close>s.
\<close>

type_synonym pystr = "nat list"

definition ustr :: "string \<Rightarrow> pystr" where
  "ustr s = map of_char s"

text \<open>
  Exceptions are values.  Only the exception classes that the modelled functions can
  raise are listed; the argument is the message where the source builds one.
  \<open>RuntimeFault\<close> stands for an exception of a collaborator (the database driver).
\<close>

datatype exn =
    AttributeError string
  | IndexError
  | KeyError string
  | SyntaxError string
  | TypeError string
  | ValueError pystr
  | ZeroDivisionError
  | HTTPException nat string
  | RuntimeFault string

text \<open>
  Truthiness of an \<open>Optional[str]\<close>: \<open>None\<close> and the empty string are falsy, as in
  \<^verbatim>\<open>if not settings.tiktok_client_key\<close>.
\<close>

definition truthy :: "string option \<Rightarrow> bool" where
  "truthy v = (case v of None \<Rightarrow> False | Some s \<Rightarrow> s \<noteq> [])"

text \<open>A name between single quotes, as Python's messages write it.\<close>

definition quoted :: "string \<Rightarrow> string" where
  "quoted s = [CHR 0x27] @ s @ [CHR 0x27]"

section \<open>Publishing tasks (src/tasks/social_tasks.py)\<close>

text \<open>
  The social settings of \<open>core/config.py\<close> that the publisher reads.
\<close>

record settings =
  tiktok_client_key :: "string option"
  instagram_client_id :: "string option"
  youtube_client_id :: "string option"

text \<open>
  A result dictionary of the publisher: string keys, string values, insertion ordered.
  \<open>content_result\<close> is a \<open>Dict[str, Any]\<close> of which only \<open>.get('video_url')\<close> is read;
  a value may be \<open>None\<close>.
\<close>

type_synonym result_dict = "(string \<times> string) list"
type_synonym content_dict = "(string \<times> string option) list"

definition content_get :: "content_dict \<Rightarrow> string \<Rightarrow> string option" where
  "content_get d k = (case map_of d k of None \<Rightarrow> None | Some v \<Rightarrow> v)"

text \<open>
  The three \<open>async def\<close> methods of \<open>SocialMediaPublisher\<close>.  Each definition is the
  value the coroutine produces when it is run.  No branch of the source contains a call to
  a platform client: the success branch returns a fixed mock dictionary.
\<close>

definition publish_to_tiktok :: "settings \<Rightarrow> content_dict \<Rightarrow> string \<Rightarrow> result_dict" where
  "publish_to_tiktok st content video_url =
     (if \<not> truthy (tiktok_client_key st)
      then [(''status'', ''skipped''), (''reason'', ''TikTok API not configured'')]
      else [(''status'', ''success''), (''platform'', ''tiktok''),
            (''post_id'', ''mock_tiktok_id''),
            (''url'', ''https://tiktok.com/@user/video/mock_tiktok_id''),
            (''published_at'', ''2024-01-01T00:00:00Z'')])"

definition publish_to_instagram :: "settings \<Rightarrow> content_dict \<Rightarrow> string \<Rightarrow> result_dict" where
  "publish_to_instagram st content video_url =
     (if \<not> truthy (instagram_client_id st)
      then [(''status'', ''skipped''), (''reason'', ''Instagram API not configured'')]
      else [(''status'', ''success''), (''platform'', ''instagram''),
            (''post_id'', ''mock_instagram_id''),
            (''url'', ''https://instagram.com/p/mock_instagram_id''),
            (''published_at'', ''2024-01-01T00:00:00Z'')])"

definition publish_to_youtube :: "settings \<Rightarrow> content_dict \<Rightarrow> string \<Rightarrow> result_dict" where
  "publish_to_youtube st content video_url =
     (if \<not> truthy (youtube_client_id st)
      then [(''status'', ''skipped''), (''reason'', ''YouTube API not configured'')]
      else [(''status'', ''success''), (''platform'', ''youtube''),
            (''post_id'', ''mock_youtube_id''),
            (''url'', ''https://youtube.com/watch?v=mock_youtube_id''),
            (''published_at'', ''2024-01-01T00:00:00Z'')])"

text \<open>
  \<open>publish_to_platforms\<close> is a plain \<open>def\<close> (a Celery task) and calls the three
  \<open>async def\<close> methods without \<open>await\<close>.  In Python such a call does not run the body:
  it returns a coroutine object.  The value stored under a platform is therefore either
  a dictionary (built in the task itself) or a coroutine that was never run; the
  coroutine carries the dictionary it would have produced.
\<close>

datatype task_value = Dict result_dict | Coroutine result_dict

text \<open>\<open>r.get('status')\<close>: a dictionary answers, a coroutine has no attribute \<open>get\<close>.\<close>

definition value_get :: "task_value \<Rightarrow> string \<Rightarrow> exn + string option" where
  "value_get r k =
     (case r of
        Dict d \<Rightarrow> Inr (map_of d k)
      | Coroutine _ \<Rightarrow> Inl (AttributeError (quoted ''coroutine'' @ '' object has no attribute '' @ quoted ''get'')))"

type_synonym results = "(string \<times> task_value) list"

text \<open>A state update of the task: the Celery state and the step text of its meta.\<close>

type_synonym task_event = "string \<times> string"

text \<open>
  The progress of step \<open>i\<close> is \<open>int((i / total_platforms) * 100)\<close>, a float computation
  whose only failure is division by zero; the model keeps the failure and not the float.
\<close>

definition progress_ok :: "nat \<Rightarrow> nat \<Rightarrow> exn + unit" where
  "progress_ok i tot = (if tot = 0 then Inl ZeroDivisionError else Inr ())"

text \<open>
  One iteration of \<open>for i, platform in enumerate(platforms)\<close>.  \<open>PlatformType\<close> is a
  \<open>str\<close> enum, so \<open>platform == PlatformType.TIKTOK\<close> compares with \<open>"tiktok"\<close>.
  \<open>results[platform] = ...\<close> replaces the value of a key already present and keeps its
  position, as \<open>AList.update\<close> does.
\<close>

definition publish_one :: "settings \<Rightarrow> content_dict \<Rightarrow> string \<Rightarrow> task_value" where
  "publish_one st content platform =
     (case content_get content ''video_url'' of
        None \<Rightarrow> Dict [(''status'', ''error''), (''error'', ''No video available'')]
      | Some video_url \<Rightarrow>
          if video_url = [] then Dict [(''status'', ''error''), (''error'', ''No video available'')]
          else if platform = ''tiktok'' then Coroutine (publish_to_tiktok st content video_url)
          else if platform = ''instagram'' then Coroutine (publish_to_instagram st content video_url)
          else if platform = ''youtube'' then Coroutine (publish_to_youtube st content video_url)
          else Dict [(''status'', ''error''), (''error'', ''Unknown platform: '' @ platform)])"

fun publish_loop ::
  "settings \<Rightarrow> content_dict \<Rightarrow> nat \<Rightarrow> nat \<Rightarrow> string list \<Rightarrow> task_event list \<times> results
     \<Rightarrow> task_event list \<times> (exn + results)" where
  "publish_loop st content tot i [] (events, res) = (events, Inr res)"
| "publish_loop st content tot i (platform # rest) (events, res) =
     (case progress_ok i tot of
        Inl e \<Rightarrow> (events, Inl e)
      | Inr _ \<Rightarrow>
          publish_loop st content tot (Suc i) rest
            (events @ [(''PROGRESS'', ''Publishing to '' @ platform)],
             AList.update platform (publish_one st content platform) res))"

text \<open>\<open>sum(1 for r in results.values() if r.get('status') == 'success')\<close>\<close>

fun count_success :: "task_value list \<Rightarrow> exn + nat" where
  "count_success [] = Inr 0"
| "count_success (r # rs) =
     (case value_get r ''status'' of
        Inl e \<Rightarrow> Inl e
      | Inr s \<Rightarrow>
          (case count_success rs of
             Inl e \<Rightarrow> Inl e
           | Inr n \<Rightarrow> Inr (if s = Some ''success'' then Suc n else n)))"

record final_result =
  campaign_id :: string
  platform_results :: results
  total_platforms :: nat
  successful_publishes :: nat
  completed_at :: string

text \<open>
  The task: the events it reported and either the exception it re-raised (after the
  \<open>FAILURE\<close> update of the handler) or the aggregate it returned.
\<close>

definition publish_to_platforms ::
  "settings \<Rightarrow> string \<Rightarrow> content_dict \<Rightarrow> string list \<Rightarrow> task_event list \<times> (exn + final_result)" where
  "publish_to_platforms st cid content platforms =
     (let tot = length platforms in
      case publish_loop st content tot 0 platforms ([], []) of
        (events, Inl e) \<Rightarrow> (events @ [(''FAILURE'', ''Error in publishing'')], Inl e)
      | (events, Inr res) \<Rightarrow>
          (case count_success (map snd res) of
             Inl e \<Rightarrow> (events @ [(''FAILURE'', ''Error in publishing'')], Inl e)
           | Inr n \<Rightarrow>
               (events @ [(''SUCCESS'', ''Publishing completed'')],
                Inr \<lparr>campaign_id = cid, platform_results = res, total_platforms = tot,
                     successful_publishes = n, completed_at = ''2024-01-01T00:00:00Z''\<rparr>)))"

section \<open>Social poster service (app/services/social_poster.py)\<close>

text \<open>Values of the dictionaries the service builds, and the dictionaries themselves.\<close>

datatype pyval = PBool bool | PStr string | PInt int

type_synonym pydict = "(string \<times> pyval) list"

definition get_str :: "pydict \<Rightarrow> string \<Rightarrow> string option" where
  "get_str d k = (case map_of d k of Some (PStr s) \<Rightarrow> Some s | _ \<Rightarrow> None)"

text \<open>\<open>str(n)\<close> of a natural number, as an f-string renders it.\<close>

function str_nat :: "nat \<Rightarrow> string" where
  "str_nat n =
     (if n < 10 then [''0123456789'' ! n]
      else str_nat (n div 10) @ [''0123456789'' ! (n mod 10)])"
  by pat_completeness auto
termination
  by (relation "measure id") auto

text \<open>
  \<open>random.randint(a, b)\<close>: the integer the generator draws, taken from the raw draw
  \<open>r\<close>; every value of the range is reached by some draw.
\<close>

definition randint :: "nat \<Rightarrow> nat \<Rightarrow> nat \<Rightarrow> nat" where
  "randint a b r = a + r mod (b - a + 1)"

datatype Platform = TIKTOK | INSTAGRAM | YOUTUBE

fun platform_value :: "Platform \<Rightarrow> string" where
  "platform_value TIKTOK = ''tiktok''"
| "platform_value INSTAGRAM = ''instagram''"
| "platform_value YOUTUBE = ''youtube''"

record app_settings =
  tiktok_client_id :: "string option"
  instagram_access_token :: "string option"
  youtube_client_id_app :: "string option"

record SocialPost =
  platform :: Platform
  caption :: string
  hashtags :: "string list"
  scheduled_time :: "nat option"
  posted :: bool
  post_id :: "string option"

text \<open>
  \<open>setup_api_clients\<close>: a client object exists exactly when its credential is truthy.
  The client classes keep nothing but the settings, so a client is \<open>Some ()\<close> or \<open>None\<close>.
\<close>

record api_clients =
  tiktok_client :: "unit option"
  instagram_client :: "unit option"
  youtube_client :: "unit option"

definition setup_api_clients :: "app_settings \<Rightarrow> api_clients" where
  "setup_api_clients cfg =
     \<lparr>tiktok_client = (if truthy (tiktok_client_id cfg) then Some () else None),
      instagram_client = (if truthy (instagram_access_token cfg) then Some () else None),
      youtube_client = (if truthy (youtube_client_id_app cfg) then Some () else None)\<rparr>"

text \<open>
  A call that reaches a platform client, with the video URL and the caption it was given.
  The service returns the calls it made next to its result.
\<close>

datatype client_call = PostVideo string string | PostReel string string | PostShort string string

text \<open>The three client methods; \<open>r\<close> is the draw behind the identifier.\<close>

definition post_video :: "nat \<Rightarrow> string \<Rightarrow> string \<Rightarrow> pydict" where
  "post_video r video_url cap =
     [(''success'', PBool True),
      (''post_id'', PStr (''tiktok_'' @ str_nat (randint 100000 999999 r))),
      (''video_url'', PStr video_url)]"

definition post_reel :: "nat \<Rightarrow> string \<Rightarrow> string \<Rightarrow> pydict" where
  "post_reel r video_url cap =
     [(''success'', PBool True),
      (''post_id'', PStr (''instagram_'' @ str_nat (randint 100000 999999 r))),
      (''video_url'', PStr video_url)]"

definition post_short :: "nat \<Rightarrow> string \<Rightarrow> string \<Rightarrow> pydict" where
  "post_short r video_url cap =
     [(''success'', PBool True),
      (''post_id'', PStr (''youtube_'' @ str_nat (randint 100000 999999 r))),
      (''video_url'', PStr video_url)]"

text \<open>\<open>' '.join(hashtags)\<close>\<close>

fun join_space :: "string list \<Rightarrow> string" where
  "join_space [] = []"
| "join_space [x] = x"
| "join_space (x # y # ys) = x @ '' '' @ join_space (y # ys)"

text \<open>
  \<open>_calculate_scheduled_time\<close>: the current time (in seconds) plus a random delay of one
  to six hours; the schedule argument is not read.
\<close>

definition calculate_scheduled_time :: "nat \<Rightarrow> nat \<Rightarrow> nat" where
  "calculate_scheduled_time now r = now + 3600 * randint 1 6 r"

text \<open>
  \<open>schedule_post\<close>.  \<open>rnd 0\<close> is the draw of the delay, \<open>rnd 1\<close> the draw of the
  identifier.  No statement of the \<open>try\<close> block can raise in this model, so the
  \<open>except\<close> branch (which returns \<open>None\<close>) is never taken and the result is always a post.
  The last branch, for a platform that has no client, carries the source comment
  "Simulate successful posting for demo".
\<close>

definition schedule_post ::
  "api_clients \<Rightarrow> nat \<Rightarrow> (nat \<Rightarrow> nat) \<Rightarrow> Platform \<Rightarrow> string \<Rightarrow> string \<Rightarrow> string list
     \<Rightarrow> SocialPost option \<times> client_call list" where
  "schedule_post clients now rnd p video_url cap tags =
     (let social_post =
            \<lparr>platform = p, caption = cap @ [CHR 0x0A, CHR 0x0A] @ join_space tags,
             hashtags = tags,
             scheduled_time = Some (calculate_scheduled_time now (rnd 0)),
             posted = False, post_id = None\<rparr>
      in if p = TIKTOK \<and> tiktok_client clients \<noteq> None then
           (Some (social_post\<lparr>post_id := get_str (post_video (rnd 1) video_url (caption social_post)) ''post_id'',
                               posted := True\<rparr>),
            [PostVideo video_url (caption social_post)])
         else if p = INSTAGRAM \<and> instagram_client clients \<noteq> None then
           (Some (social_post\<lparr>post_id := get_str (post_reel (rnd 1) video_url (caption social_post)) ''post_id'',
                               posted := True\<rparr>),
            [PostReel video_url (caption social_post)])
         else if p = YOUTUBE \<and> youtube_client clients \<noteq> None then
           (Some (social_post\<lparr>post_id := get_str (post_short (rnd 1) video_url (caption social_post)) ''post_id'',
                               posted := True\<rparr>),
            [PostShort video_url (caption social_post)])
         else
           (Some (social_post\<lparr>post_id := Some (''demo_'' @ platform_value p @ ''_'' @ str_nat (randint 1000 9999 (rnd 1))),
                               posted := True\<rparr>),
            []))"

text \<open>The client of a platform, as the three guards of \<open>schedule_post\<close> read it.\<close>

fun client_of :: "api_clients \<Rightarrow> Platform \<Rightarrow> unit option" where
  "client_of clients TIKTOK = tiktok_client clients"
| "client_of clients INSTAGRAM = instagram_client clients"
| "client_of clients YOUTUBE = youtube_client clients"

section \<open>Campaign manager (app/services/campaign_manager.py, app/database.py)\<close>

text \<open>
  The \<open>video_content\<close> and \<open>config\<close> JSON columns hold the dictionaries of the Pydantic
  models \<open>VideoContent\<close> and \<open>CampaignConfig\<close>.
\<close>

record VideoContent =
  prompt :: string
  style :: string
  duration :: nat
  japanese_optimized :: bool

record CampaignConfig =
  target_platforms :: "Platform list"
  posting_schedule :: pydict
  auto_engage :: bool
  engagement_replies :: "string list"
  content_variations :: nat

text \<open>
  A row of the table \<open>campaigns\<close>: the twelve columns of \<open>CampaignDB\<close>, each prefixed with
  \<open>db_\<close>.  The table has no column for an error message.  Times are in seconds.
\<close>

record CampaignDB =
  db_id :: string
  db_name :: string
  db_description :: string
  db_campaign_type :: string
  db_status :: string
  db_video_content :: VideoContent
  db_config :: CampaignConfig
  db_posts :: "SocialPost list"
  db_video_urls :: "string list"
  db_analytics :: "pydict option"
  db_created_at :: nat
  db_updated_at :: nat

type_synonym campaigns = "string \<rightharpoonup> CampaignDB"

text \<open>The database operations of \<open>process_campaign\<close>, in the order of the source.\<close>

datatype db_op = GetCampaign | SetRunning | StoreVideoUrls | StorePosts | SetCompleted | SetFailed

text \<open>
  What the manager's collaborators do in one run:
  \<^item> \<open>utcnow\<close>: the clock;
  \<^item> \<open>db_fault\<close>: a database operation may raise (\<open>Some\<close> the message) before it changes
    anything;
  \<^item> \<open>generate_video\<close>: the outcome of the \<open>k\<close>-th call of the video generator, which
    catches its own exceptions and returns a URL or \<open>None\<close> (the prompts it is given are
    built by string formatting that cannot fail, and only the generator reads them);
  \<^item> \<open>poster_clients\<close> and \<open>draws\<close>: the clients of the poster service and the draws of its
    \<open>i\<close>-th call;
  \<^item> \<open>platform_caption\<close> and \<open>trending_hashtags\<close>: the fixed text tables of
    \<open>_create_platform_caption\<close> and \<open>_get_trending_hashtags\<close>.
\<close>

record manager_env =
  utcnow :: nat
  db_fault :: "db_op \<Rightarrow> string option"
  generate_video :: "nat \<Rightarrow> string option"
  poster_clients :: api_clients
  draws :: "nat \<Rightarrow> nat \<Rightarrow> nat"
  platform_caption :: "string \<Rightarrow> Platform \<Rightarrow> string"
  trending_hashtags :: "Platform \<Rightarrow> string \<Rightarrow> string list"

record app_state =
  table :: campaigns
  logged :: "string list"

definition db_guard :: "manager_env \<Rightarrow> db_op \<Rightarrow> exn + unit" where
  "db_guard env op = (case db_fault env op of Some m \<Rightarrow> Inl (RuntimeFault m) | None \<Rightarrow> Inr ())"

fun str_exn :: "exn \<Rightarrow> string" where
  "str_exn (AttributeError m) = m"
| "str_exn IndexError = ''list index out of range''"
| "str_exn (KeyError m) = m"
| "str_exn (SyntaxError m) = m"
| "str_exn (TypeError m) = m"
| "str_exn (ValueError m) = map char_of m"
| "str_exn ZeroDivisionError = ''division by zero''"
| "str_exn (HTTPException c m) = m"
| "str_exn (RuntimeFault m) = m"

text \<open>\<open>update_campaign_status\<close>: the row, if there is one, gets the status and the time.\<close>

definition update_campaign_status :: "nat \<Rightarrow> string \<Rightarrow> string \<Rightarrow> campaigns \<Rightarrow> campaigns" where
  "update_campaign_status now cid st db =
     (case db cid of
        None \<Rightarrow> db
      | Some r \<Rightarrow> db(cid \<mapsto> r\<lparr>db_status := st, db_updated_at := now\<rparr>))"

text \<open>\<open>if video_url: video_urls.append(video_url)\<close>\<close>

definition append_url :: "string list \<Rightarrow> string option \<Rightarrow> string list" where
  "append_url urls u =
     (case u of None \<Rightarrow> urls | Some v \<Rightarrow> if v = [] then urls else urls @ [v])"

text \<open>
  The column \<open>updated_at\<close> is declared with \<open>onupdate=datetime.utcnow\<close>: a commit that
  changes another column of the row, and does not assign \<open>updated_at\<close> itself, sets it to
  the current time; a commit that changes nothing leaves the row alone.
\<close>

definition onupdate :: "manager_env \<Rightarrow> bool \<Rightarrow> CampaignDB \<Rightarrow> nat" where
  "onupdate env changed r = (if changed then utcnow env else db_updated_at r)"

text \<open>
  \<open>_generate_campaign_videos\<close>: call 0 makes the main video, calls \<open>1 .. content_variations - 1\<close>
  the variations; the URLs are then stored in the row.
\<close>

definition generate_campaign_videos ::
  "manager_env \<Rightarrow> CampaignDB \<Rightarrow> campaigns \<Rightarrow> exn + string list \<times> campaigns" where
  "generate_campaign_videos env campaign db =
     (let video_urls =
            foldl (\<lambda>urls k. append_url urls (generate_video env k)) []
              [0 ..< Suc (content_variations (db_config campaign) - 1)]
      in case db_guard env StoreVideoUrls of
           Inl e \<Rightarrow> Inl e
         | Inr _ \<Rightarrow>
             Inr (video_urls,
                  case db (db_id campaign) of
                    None \<Rightarrow> db
                  | Some r \<Rightarrow>
                      db(db_id campaign \<mapsto>
                           r\<lparr>db_video_urls := video_urls,
                             db_updated_at := onupdate env (db_video_urls r \<noteq> video_urls) r\<rparr>)))"

text \<open>
  The loop of \<open>_create_social_posts\<close>: platform \<open>i\<close> gets video \<open>i % len(video_urls)\<close>;
  a post is kept when \<open>schedule_post\<close> returned one.
\<close>

fun social_posts_loop ::
  "manager_env \<Rightarrow> CampaignDB \<Rightarrow> string list \<Rightarrow> nat \<Rightarrow> Platform list \<Rightarrow> SocialPost list" where
  "social_posts_loop env campaign video_urls i [] = []"
| "social_posts_loop env campaign video_urls i (p # ps) =
     (case fst (schedule_post (poster_clients env) (utcnow env) (draws env i) p
                  (video_urls ! (i mod length video_urls))
                  (platform_caption env (db_description campaign) p)
                  (trending_hashtags env p (db_campaign_type campaign))) of
        None \<Rightarrow> social_posts_loop env campaign video_urls (Suc i) ps
      | Some post \<Rightarrow> post # social_posts_loop env campaign video_urls (Suc i) ps)"

text \<open>
  \<open>_create_social_posts\<close>.  The posts are stored as \<open>[post.dict() for post in posts]\<close>
  in the JSON column \<open>posts\<close>.  The dictionary of a post holds its \<open>scheduled_time\<close>, a
  \<open>datetime\<close> whenever it is set, and the JSON serializer of the column does not take a
  \<open>datetime\<close>: the commit then raises \<open>TypeError\<close> and nothing is stored.
\<close>

definition create_social_posts ::
  "manager_env \<Rightarrow> CampaignDB \<Rightarrow> string list \<Rightarrow> app_state \<Rightarrow> exn + app_state" where
  "create_social_posts env campaign video_urls s =
     (if video_urls = [] then
        Inr (s\<lparr>logged := logged s @ [''No videos generated for campaign '' @ db_id campaign]\<rparr>)
      else
        let posts = social_posts_loop env campaign video_urls 0
                      (target_platforms (db_config campaign))
        in case db_guard env StorePosts of
             Inl e \<Rightarrow> Inl e
           | Inr _ \<Rightarrow>
               (case table s (db_id campaign) of
                  None \<Rightarrow> Inr s
                | Some r \<Rightarrow>
                    if list_ex (\<lambda>post. scheduled_time post \<noteq> None) posts then
                      Inl (TypeError ''Object of type datetime is not JSON serializable'')
                    else
                      Inr (s\<lparr>table :=
                             (table s)(db_id campaign \<mapsto>
                                r\<lparr>db_posts := posts,
                                  db_updated_at := onupdate env (db_posts r \<noteq> posts) r\<rparr>)\<rparr>)))"

text \<open>
  The \<open>try\<close> block of \<open>process_campaign\<close>: \<open>Inl\<close> is the exception that leaves it,
  together with the state reached when it was raised.
\<close>

definition process_campaign_try :: "manager_env \<Rightarrow> string \<Rightarrow> app_state \<Rightarrow> (exn \<times> app_state) + app_state" where
  "process_campaign_try env cid s =
     (case db_guard env GetCampaign of
        Inl e \<Rightarrow> Inl (e, s)
      | Inr _ \<Rightarrow>
     (case table s cid of
        None \<Rightarrow> Inr (s\<lparr>logged := logged s @ [''Campaign not found: '' @ cid]\<rparr>)
      | Some campaign \<Rightarrow>
     (case db_guard env SetRunning of
        Inl e \<Rightarrow> Inl (e, s)
      | Inr _ \<Rightarrow>
     (let s1 = s\<lparr>table := update_campaign_status (utcnow env) cid ''running'' (table s)\<rparr> in
      case generate_campaign_videos env campaign (table s1) of
        Inl e \<Rightarrow> Inl (e, s1)
      | Inr (video_urls, db2) \<Rightarrow>
     (let s2 = s1\<lparr>table := db2\<rparr> in
      case create_social_posts env campaign video_urls s2 of
        Inl e \<Rightarrow> Inl (e, s2)
      | Inr s3 \<Rightarrow>
     (case db_guard env SetCompleted of
        Inl e \<Rightarrow> Inl (e, s3)
      | Inr _ \<Rightarrow>
          Inr (s3\<lparr>table := update_campaign_status (utcnow env) cid ''completed'' (table s3),
                  logged := logged s3 @ [''Campaign processed successfully: '' @ cid]\<rparr>)))))))"

text \<open>
  \<open>process_campaign\<close>: the handler logs the exception and sets the status to "failed".
  The second component is the exception that escapes the function, which can only come
  from the handler's own database update.
\<close>

definition process_campaign :: "manager_env \<Rightarrow> string \<Rightarrow> app_state \<Rightarrow> app_state \<times> exn option" where
  "process_campaign env cid s =
     (case process_campaign_try env cid s of
        Inr s' \<Rightarrow> (s', None)
      | Inl (e, s') \<Rightarrow>
          (let s'' = s'\<lparr>logged := logged s' @ [''Error processing campaign '' @ cid @ '': '' @ str_exn e]\<rparr>
           in case db_guard env SetFailed of
                Inl e' \<Rightarrow> (s'', Some e')
              | Inr _ \<Rightarrow>
                  (s''\<lparr>table := update_campaign_status (utcnow env) cid ''failed'' (table s'')\<rparr>, None)))"

text \<open>Whether the \<open>try\<close> block raises.\<close>

definition raises :: "manager_env \<Rightarrow> string \<Rightarrow> app_state \<Rightarrow> bool" where
  "raises env cid s = (case process_campaign_try env cid s of Inl _ \<Rightarrow> True | Inr _ \<Rightarrow> False)"

text \<open>
  The columns that no statement of \<open>process_campaign\<close> assigns: everything but the status,
  the update time, the video URLs and the posts.
\<close>

definition unassigned_columns_equal :: "CampaignDB \<Rightarrow> CampaignDB \<Rightarrow> bool" where
  "unassigned_columns_equal r r' =
     (db_id r' = db_id r \<and> db_name r' = db_name r \<and> db_description r' = db_description r
      \<and> db_campaign_type r' = db_campaign_type r \<and> db_video_content r' = db_video_content r
      \<and> db_config r' = db_config r \<and> db_analytics r' = db_analytics r
      \<and> db_created_at r' = db_created_at r)"

text \<open>
  A concrete run: one stored campaign, and collaborators under which the video generator
  returns a URL and the database refuses to store it, with the message \<open>m\<close>.
\<close>

definition demo_row :: CampaignDB where
  "demo_row =
     \<lparr>db_id = ''c1'', db_name = ''Launch'', db_description = ''New phone'',
      db_campaign_type = ''ai_product_reaction'', db_status = ''draft'',
      db_video_content = \<lparr>prompt = ''phone'', style = ''anime'', duration = 15,
                           japanese_optimized = True\<rparr>,
      db_config = \<lparr>target_platforms = [TIKTOK], posting_schedule = [], auto_engage = True,
                    engagement_replies = [], content_variations = 1\<rparr>,
      db_posts = [], db_video_urls = [], db_analytics = None,
      db_created_at = 100, db_updated_at = 100\<rparr>"

definition demo_state :: app_state where
  "demo_state = \<lparr>table = [''c1'' \<mapsto> demo_row], logged = []\<rparr>"

definition demo_env :: "string \<Rightarrow> manager_env" where
  "demo_env m =
     \<lparr>utcnow = 500,
      db_fault = (\<lambda>op. if op = StoreVideoUrls then Some m else None),
      generate_video = (\<lambda>k. Some ''https://cdn/v.mp4''),
      poster_clients = \<lparr>tiktok_client = None, instagram_client = None, youtube_client = None\<rparr>,
      draws = (\<lambda>i k. 0),
      platform_caption = (\<lambda>d p. d),
      trending_hashtags = (\<lambda>p t. [''#AI''])\<rparr>"

section \<open>Engagement (app/services/social_poster.py, app/workers/engagement_worker.py)\<close>

text \<open>
  The \<open>platform\<close> argument of the engagement methods is annotated \<open>Platform\<close>, and the
  methods read \<open>platform.value\<close>.  The worker passes the \<open>platform\<close> column of the task,
  which is a plain string; \<open>.value\<close> of a string raises \<open>AttributeError\<close>.
\<close>

datatype platform_arg = EnumP Platform | StrP string

fun value_of :: "platform_arg \<Rightarrow> exn + string" where
  "value_of (EnumP p) = Inr (platform_value p)"
| "value_of (StrP s) =
     Inl (AttributeError (quoted ''str'' @ '' object has no attribute '' @ quoted ''value''))"

text \<open>\<open>random.choice\<close>: \<open>IndexError\<close> on an empty sequence.\<close>

definition random_choice :: "'a list \<Rightarrow> nat \<Rightarrow> exn + 'a" where
  "random_choice xs r = (if xs = [] then Inl IndexError else Inr (xs ! (r mod length xs)))"

text \<open>
  The three actions.  \<open>replies\<close> is the fixed list of reply texts of \<open>_auto_reply\<close>;
  \<open>rnd 0\<close> draws the text and \<open>rnd 1\<close> the reply identifier.
\<close>

definition auto_reply :: "string list \<Rightarrow> (nat \<Rightarrow> nat) \<Rightarrow> platform_arg \<Rightarrow> string \<Rightarrow> string \<Rightarrow> exn + pydict" where
  "auto_reply replies rnd p pid cid =
     (case random_choice replies (rnd 0) of
        Inl e \<Rightarrow> Inl e
      | Inr reply_text \<Rightarrow>
          (case value_of p of
             Inl e \<Rightarrow> Inl e
           | Inr v \<Rightarrow>
               Inr [(''success'', PBool True),
                    (''reply_id'', PStr (''reply_'' @ str_nat (randint 1000 9999 (rnd 1)))),
                    (''reply_text'', PStr reply_text),
                    (''platform'', PStr v)]))"

definition auto_like :: "platform_arg \<Rightarrow> string \<Rightarrow> exn + pydict" where
  "auto_like p pid =
     (case value_of p of
        Inl e \<Rightarrow> Inl e
      | Inr v \<Rightarrow>
          Inr [(''success'', PBool True), (''action'', PStr ''liked''),
               (''platform'', PStr v), (''post_id'', PStr pid)])"

definition auto_share :: "platform_arg \<Rightarrow> string \<Rightarrow> exn + pydict" where
  "auto_share p pid =
     (case value_of p of
        Inl e \<Rightarrow> Inl e
      | Inr v \<Rightarrow>
          Inr [(''success'', PBool True), (''action'', PStr ''shared''),
               (''platform'', PStr v), (''post_id'', PStr pid)])"

text \<open>
  \<open>engage_with_content\<close>: the dispatch on the engagement type inside \<open>try\<close>, and the
  handler that turns every exception into a failure dictionary.
\<close>

definition engage_with_content ::
  "string list \<Rightarrow> (nat \<Rightarrow> nat) \<Rightarrow> string \<Rightarrow> platform_arg \<Rightarrow> string \<Rightarrow> string \<Rightarrow> exn + pydict" where
  "engage_with_content replies rnd cid p pid engagement_type =
     (case (if engagement_type = ''reply'' then auto_reply replies rnd p pid cid
            else if engagement_type = ''like'' then auto_like p pid
            else if engagement_type = ''share'' then auto_share p pid
            else Inr [(''success'', PBool False), (''error'', PStr ''Unknown engagement type'')]) of
        Inl e \<Rightarrow> Inr [(''success'', PBool False), (''error'', PStr (str_exn e))]
      | Inr d \<Rightarrow> Inr d)"

text \<open>
  A row of the table \<open>engagement_tasks\<close> (\<open>EngagementTaskDB\<close>); \<open>task_id\<close> is its
  primary key \<open>id\<close>.  Rows are created with \<open>executed\<close> at its default \<open>False\<close>.
\<close>

record EngagementTaskDB =
  task_id :: string
  task_campaign_id :: string
  task_platform :: string
  task_post_id :: string
  task_type :: string
  executed :: bool
  task_scheduled_time :: nat
  task_result :: "pydict option"

record engagement_env =
  queue_utcnow :: nat
  queue_replies :: "string list"
  queue_draws :: "nat \<Rightarrow> nat \<Rightarrow> nat"

text \<open>
  The query: rows with \<open>executed == False\<close> and \<open>scheduled_time <= utcnow()\<close>, at most
  ten of them, in the order of the table.
\<close>

definition pending_tasks :: "nat \<Rightarrow> EngagementTaskDB list \<Rightarrow> EngagementTaskDB list" where
  "pending_tasks now tbl = take 10 (filter (\<lambda>t. \<not> executed t \<and> task_scheduled_time t \<le> now) tbl)"

text \<open>\<open>task.executed = True; task.result = result; db.commit()\<close> on the row of that key.\<close>

definition mark_executed :: "string \<Rightarrow> pydict \<Rightarrow> EngagementTaskDB list \<Rightarrow> EngagementTaskDB list" where
  "mark_executed tid r tbl =
     map (\<lambda>t. if task_id t = tid then t\<lparr>executed := True, task_result := Some r\<rparr> else t) tbl"

text \<open>
  The body of \<open>process_engagement_queue\<close>, statement by statement: what it computes once
  it runs, with \<open>await f(...)\<close> giving the value that \<open>f\<close> returns.  An exception of the
  call is logged and the task is left as it was; otherwise the task is marked.  Whether
  the function can be run at all is the matter of \<open>call_process_engagement_queue\<close>
  below: the source declares it with a plain \<open>def\<close>.
\<close>

fun engagement_loop ::
  "engagement_env \<Rightarrow> nat \<Rightarrow> EngagementTaskDB list \<Rightarrow> EngagementTaskDB list \<times> string list
     \<Rightarrow> EngagementTaskDB list \<times> string list" where
  "engagement_loop env i [] acc = acc"
| "engagement_loop env i (task # rest) (tbl, lg) =
     (case engage_with_content (queue_replies env) (queue_draws env i) (task_campaign_id task)
             (StrP (task_platform task)) (task_post_id task) (task_type task) of
        Inl e \<Rightarrow>
          engagement_loop env (Suc i) rest
            (tbl, lg @ [''Error executing engagement task '' @ task_id task @ '': '' @ str_exn e])
      | Inr r \<Rightarrow>
          engagement_loop env (Suc i) rest
            (mark_executed (task_id task) r tbl, lg @ [''Executed engagement task: '' @ task_id task]))"

definition process_engagement_queue ::
  "engagement_env \<Rightarrow> EngagementTaskDB list \<Rightarrow> EngagementTaskDB list \<times> string list" where
  "process_engagement_queue env tbl =
     (let pending = pending_tasks (queue_utcnow env) tbl;
          res = engagement_loop env 0 pending (tbl, [''Processing engagement queue...''])
      in (fst res,
          snd res @ [''Processed '' @ str_nat (length pending) @ '' engagement tasks'']))"

text \<open>
  The function as the module ships it.  Python compiles a module as a whole when it is
  imported, and \<open>await\<close> in the body of a function that is declared with \<open>def\<close>
  rather than \<open>async def\<close> is a \<open>SyntaxError\<close>.  A function of a module is described
  by its name, whether it is declared \<open>async\<close>, and whether its body contains \<open>await\<close>.
\<close>

record function_def =
  def_name :: string
  declared_async :: bool
  body_awaits :: bool

definition compile_function :: "function_def \<Rightarrow> exn + unit" where
  "compile_function f =
     (if body_awaits f \<and> \<not> declared_async f
      then Inl (SyntaxError (quoted ''await'' @ '' outside async function''))
      else Inr ())"

fun compile_module :: "function_def list \<Rightarrow> exn + unit" where
  "compile_module [] = Inr ()"
| "compile_module (f # fs) =
     (case compile_function f of Inl e \<Rightarrow> Inl e | Inr _ \<Rightarrow> compile_module fs)"

text \<open>
  The four functions of app/workers/engagement_worker.py: all are declared with \<open>def\<close>,
  and \<open>process_engagement_queue\<close> awaits \<open>social_poster.engage_with_content\<close>.
\<close>

definition engagement_worker :: "function_def list" where
  "engagement_worker =
     [\<lparr>def_name = ''process_engagement_queue'', declared_async = False, body_awaits = True\<rparr>,
      \<lparr>def_name = ''schedule_engagement_tasks'', declared_async = False, body_awaits = False\<rparr>,
      \<lparr>def_name = ''auto_reply_to_comments'', declared_async = False, body_awaits = False\<rparr>,
      \<lparr>def_name = ''monitor_trending_hashtags'', declared_async = False, body_awaits = False\<rparr>]"

text \<open>
  Importing the module and calling the task: the import fails before any statement of the
  body runs, and the table stays as it was.
\<close>

definition call_process_engagement_queue ::
  "engagement_env \<Rightarrow> EngagementTaskDB list \<Rightarrow> exn + EngagementTaskDB list \<times> string list" where
  "call_process_engagement_queue env tbl =
     (case compile_module engagement_worker of
        Inl e \<Rightarrow> Inl e
      | Inr _ \<Rightarrow> Inr (process_engagement_queue env tbl))"

text \<open>
  Successive runs of the body of the processor, each with its own clock and draws.
\<close>

fun run_queue :: "engagement_env list \<Rightarrow> EngagementTaskDB list \<Rightarrow> EngagementTaskDB list" where
  "run_queue [] tbl = tbl"
| "run_queue (env # envs) tbl = run_queue envs (fst (process_engagement_queue env tbl))"

text \<open>A concrete table: one task already executed, one due, one not yet due.\<close>

definition demo_tasks :: "EngagementTaskDB list" where
  "demo_tasks =
     [\<lparr>task_id = ''t1'', task_campaign_id = ''c1'', task_platform = ''tiktok'',
       task_post_id = ''p1'', task_type = ''like'', executed = True,
       task_scheduled_time = 10, task_result = Some [(''success'', PBool True)]\<rparr>,
      \<lparr>task_id = ''t2'', task_campaign_id = ''c1'', task_platform = ''tiktok'',
       task_post_id = ''p1'', task_type = ''reply'', executed = False,
       task_scheduled_time = 50, task_result = None\<rparr>,
      \<lparr>task_id = ''t3'', task_campaign_id = ''c1'', task_platform = ''tiktok'',
       task_post_id = ''p1'', task_type = ''stitch'', executed = False,
       task_scheduled_time = 900, task_result = None\<rparr>]"

definition demo_queue_env :: "nat \<Rightarrow> engagement_env" where
  "demo_queue_env now = \<lparr>queue_utcnow = now, queue_replies = [''nice''], queue_draws = (\<lambda>i k. 0)\<rparr>"

section \<open>Campaign API of the launcher (src/models/campaign.py, src/main.py)\<close>

datatype CampaignStatus = PENDING | PROCESSING | COMPLETED | FAILED | SCHEDULED

datatype ContentType =
  AI_PRODUCT_REACTION | MYSTERY_LAUNCH | AI_VS_HUMAN_POLL | DAY_IN_LIFE | MEMEABLE_CONTENT

fun content_type_value :: "ContentType \<Rightarrow> string" where
  "content_type_value AI_PRODUCT_REACTION = ''ai_product_reaction''"
| "content_type_value MYSTERY_LAUNCH = ''mystery_launch''"
| "content_type_value AI_VS_HUMAN_POLL = ''ai_vs_human_poll''"
| "content_type_value DAY_IN_LIFE = ''day_in_life''"
| "content_type_value MEMEABLE_CONTENT = ''memeable_content''"

record VideoGenerationRequest =
  script :: string
  video_style :: string
  voice_language :: string
  video_duration :: "nat option"
  resolution :: string
  background_music :: bool

text \<open>\<open>CampaignConfig\<close> of the launcher; \<open>platforms\<close> holds \<open>PlatformType\<close> members.\<close>

record LauncherConfig =
  name :: string
  template_key :: string
  platforms :: "Platform list"
  content_type :: ContentType
  schedule :: "string option"
  daily_limit :: int
  video_config :: VideoGenerationRequest
  tags :: "string list"
  enabled :: bool

text \<open>
  \<open>Campaign\<close>: \<open>ident\<close> is the field \<open>id\<close>; \<open>published_urls\<close> maps a platform to a post
  URL; times are in seconds.
\<close>

record Campaign =
  ident :: string
  config :: LauncherConfig
  status :: CampaignStatus
  created_at :: nat
  updated_at :: nat
  error_message :: "string option"
  generated_content :: "pydict option"
  published_urls :: "(string \<times> string) list"
  analytics :: pydict

text \<open>The task configuration that the endpoint builds from a campaign.\<close>

record task_config =
  tc_id :: string
  tc_template_key :: string
  tc_content_type :: string
  tc_platforms :: "string list"
  tc_video_config :: VideoGenerationRequest

text \<open>
  The process-wide state of the API: the in-memory dictionary \<open>campaigns_db\<close> and the
  content-generation tasks handed to the queue, each with the identifier the queue gave it.
\<close>

record launcher_state =
  campaigns_db :: "string \<rightharpoonup> Campaign"
  enqueued :: "(string \<times> task_config) list"

text \<open>
  \<open>regenerate_campaign_content\<close> (\<open>POST /campaigns/{campaign_id}/generate\<close>).  \<open>now\<close> is
  \<open>datetime.now()\<close> and \<open>tid\<close> the identifier of the task that \<open>delay\<close> returns; the
  queue accepts the task.
\<close>

definition regenerate_campaign_content ::
  "nat \<Rightarrow> string \<Rightarrow> string \<Rightarrow> launcher_state \<Rightarrow> exn + launcher_state \<times> result_dict" where
  "regenerate_campaign_content now tid cid st =
     (case campaigns_db st cid of
        None \<Rightarrow> Inl (HTTPException 404 ''Campaign not found'')
      | Some campaign \<Rightarrow>
          (let tc = \<lparr>tc_id = cid,
                     tc_template_key = template_key (config campaign),
                     tc_content_type = content_type_value (content_type (config campaign)),
                     tc_platforms = map platform_value (platforms (config campaign)),
                     tc_video_config = video_config (config campaign)\<rparr>;
               campaign' = campaign\<lparr>status := PROCESSING, updated_at := now\<rparr>
           in Inr (st\<lparr>enqueued := enqueued st @ [(tid, tc)],
                       campaigns_db := (campaigns_db st)(cid \<mapsto> campaign')\<rparr>,
                   [(''campaign_id'', cid), (''task_id'', tid), (''status'', ''processing'')])))"

text \<open>Regenerate requests for one campaign, one after the other, each with its time and task.\<close>

fun regenerations :: "(nat \<times> string) list \<Rightarrow> string \<Rightarrow> launcher_state \<Rightarrow> exn + launcher_state" where
  "regenerations [] cid st = Inr st"
| "regenerations ((now, tid) # reqs) cid st =
     (case regenerate_campaign_content now tid cid st of
        Inl e \<Rightarrow> Inl e
      | Inr (st', resp) \<Rightarrow> regenerations reqs cid st')"

text \<open>A stored campaign that is completed and has one published post.\<close>

definition demo_campaign :: Campaign where
  "demo_campaign =
     \<lparr>ident = ''c1'',
      config = \<lparr>name = ''Launch'', template_key = ''tech'', platforms = [TIKTOK],
                content_type = AI_PRODUCT_REACTION, schedule = None, daily_limit = 5,
                video_config = \<lparr>script = '''', video_style = ''kawaii'', voice_language = ''ja'',
                                 video_duration = Some 30, resolution = ''1080x1920'',
                                 background_music = True\<rparr>,
                tags = [], enabled = True\<rparr>,
      status = COMPLETED, created_at = 100, updated_at = 200, error_message = None,
      generated_content = None,
      published_urls = [(''tiktok'', ''https://tiktok.com/@user/video/1'')],
      analytics = []\<rparr>"

definition demo_launcher :: launcher_state where
  "demo_launcher = \<lparr>campaigns_db = [''c1'' \<mapsto> demo_campaign], enqueued = []\<rparr>"

section \<open>Templates (src/core/templates.py)\<close>

text \<open>
  A \<open>CampaignTemplate\<close> (src/models/campaign.py).  Its strings are \<open>pystr\<close> values, that
  is lists of Unicode code points; the non-ASCII literals of the source are written as
  their code points.
\<close>

record CampaignTemplate =
  key :: pystr
  display :: pystr
  style_primary :: pystr
  style_secondary :: pystr
  has_affiliate :: bool
  template_keywords :: "pystr list"
  sources_rss :: "pystr list"
  affiliate_url_env :: "pystr option"

text \<open>
  \<open>_get_default_templates\<close>: the three built-in templates.  The display names read
  "MNP/keitai norikae", "anime/entame" and "tekku/gajetto" in katakana and kanji.
\<close>

definition get_default_templates :: "CampaignTemplate list" where
  "get_default_templates =
     [\<lparr>key = ustr ''mnp'',
       display = [0x004D, 0x004E, 0x0050, 0x002F, 0x643A, 0x5E2F, 0x4E57, 0x63DB],
       style_primary = ustr ''serious'', style_secondary = ustr ''kawaii'',
       has_affiliate = True,
       template_keywords = [ustr ''mnp'',
                            [0x4E57, 0x308A, 0x63DB, 0x3048],
                            [0x30B9, 0x30DE, 0x30DB],
                            [0x7AEF, 0x672B, 0x5272, 0x5F15],
                            [0x30DD, 0x30A4, 0x30F3, 0x30C8, 0x9084, 0x5143]],
       sources_rss = [ustr ''https://news.yahoo.co.jp/rss/topics/it.xml''],
       affiliate_url_env = Some (ustr ''AFFILIATE_MNP_URL'')\<rparr>,
      \<lparr>key = ustr ''anime'',
       display = [0x30A2, 0x30CB, 0x30E1, 0x002F, 0x30A8, 0x30F3, 0x30BF, 0x30E1],
       style_primary = ustr ''kawaii'', style_secondary = ustr ''fun'',
       has_affiliate = True,
       template_keywords = [[0x30A2, 0x30CB, 0x30E1],
                            [0x58F0, 0x512A],
                            [0x6620, 0x753B, 0x5316],
                            [0x30B3, 0x30E9, 0x30DC]],
       sources_rss = [ustr ''https://news.yahoo.co.jp/rss/topics/entertainment.xml''],
       affiliate_url_env = Some (ustr ''AFFILIATE_ANIME_URL'')\<rparr>,
      \<lparr>key = ustr ''tech'',
       display = [0x30C6, 0x30C3, 0x30AF, 0x002F, 0x30AC, 0x30B8, 0x30A7, 0x30C3, 0x30C8],
       style_primary = ustr ''tech'', style_secondary = ustr ''serious'',
       has_affiliate = False,
       template_keywords = [[0x767A, 0x8868],
                            [0x767A, 0x58F2],
                            [0x6BD4, 0x8F03],
                            [0x6027, 0x80FD],
                            [0x30EC, 0x30D3, 0x30E5, 0x30FC],
                            [0x65B0, 0x88FD, 0x54C1]],
       sources_rss = [ustr ''https://news.yahoo.co.jp/rss/topics/it.xml''],
       affiliate_url_env = None\<rparr>]"

text \<open>
  An entry of the list \<open>streams\<close> of the YAML file: each of the seven keys that the loader
  reads with \<open>stream['...']\<close> may be missing (\<open>KeyError\<close>); \<open>affiliate_url_env\<close> is read
  with \<open>get\<close>.
\<close>

record stream =
  stream_key :: "pystr option"
  stream_display :: "pystr option"
  stream_style_primary :: "pystr option"
  stream_style_secondary :: "pystr option"
  stream_has_affiliate :: "bool option"
  stream_keywords :: "pystr list option"
  stream_sources_rss :: "pystr list option"
  stream_affiliate_url_env :: "pystr option"

definition subscript :: "string \<Rightarrow> 'a option \<Rightarrow> exn + 'a" where
  "subscript k v = (case v of None \<Rightarrow> Inl (KeyError k) | Some x \<Rightarrow> Inr x)"

definition template_of_stream :: "stream \<Rightarrow> exn + CampaignTemplate" where
  "template_of_stream s =
     (case subscript ''key'' (stream_key s) of Inl e \<Rightarrow> Inl e | Inr k \<Rightarrow>
      case subscript ''display'' (stream_display s) of Inl e \<Rightarrow> Inl e | Inr d \<Rightarrow>
      case subscript ''style_primary'' (stream_style_primary s) of Inl e \<Rightarrow> Inl e | Inr sp \<Rightarrow>
      case subscript ''style_secondary'' (stream_style_secondary s) of Inl e \<Rightarrow> Inl e | Inr ss \<Rightarrow>
      case subscript ''has_affiliate'' (stream_has_affiliate s) of Inl e \<Rightarrow> Inl e | Inr ha \<Rightarrow>
      case subscript ''keywords'' (stream_keywords s) of Inl e \<Rightarrow> Inl e | Inr kw \<Rightarrow>
      case subscript ''sources_rss'' (stream_sources_rss s) of Inl e \<Rightarrow> Inl e | Inr rss \<Rightarrow>
        Inr \<lparr>key = k, display = d, style_primary = sp, style_secondary = ss,
             has_affiliate = ha, template_keywords = kw, sources_rss = rss,
             affiliate_url_env = stream_affiliate_url_env s\<rparr>)"

fun templates_of_streams :: "stream list \<Rightarrow> exn + CampaignTemplate list" where
  "templates_of_streams [] = Inr []"
| "templates_of_streams (s # ss) =
     (case template_of_stream s of
        Inl e \<Rightarrow> Inl e
      | Inr t \<Rightarrow> (case templates_of_streams ss of Inl e \<Rightarrow> Inl e | Inr ts \<Rightarrow> Inr (t # ts)))"

text \<open>
  What reading the configuration file gives: the file is missing, reading or parsing it
  raises another exception, or it yields the list under \<open>streams\<close> (empty when the key
  is absent).
\<close>

datatype yaml_file = FileNotFoundError | LoadError | Streams "stream list"

text \<open>\<open>load_templates\<close>: both handlers return the default templates.\<close>

definition load_templates :: "yaml_file \<Rightarrow> CampaignTemplate list" where
  "load_templates f =
     (case f of
        FileNotFoundError \<Rightarrow> get_default_templates
      | LoadError \<Rightarrow> get_default_templates
      | Streams ss \<Rightarrow>
          (case templates_of_streams ss of
             Inl e \<Rightarrow> get_default_templates
           | Inr ts \<Rightarrow> ts))"

text \<open>
  \<open>get_template_by_key\<close>: the first template with the key, or \<open>ValueError\<close> with the
  message "Template with key '...' not found".
\<close>

fun first_with_key :: "pystr \<Rightarrow> CampaignTemplate list \<Rightarrow> CampaignTemplate option" where
  "first_with_key k [] = None"
| "first_with_key k (t # ts) = (if key t = k then Some t else first_with_key k ts)"

definition get_template_by_key :: "yaml_file \<Rightarrow> pystr \<Rightarrow> exn + CampaignTemplate" where
  "get_template_by_key f k =
     (case first_with_key k (load_templates f) of
        Some t \<Rightarrow> Inr t
      | None \<Rightarrow> Inl (ValueError (ustr ''Template with key '' @ [0x27] @ k @ [0x27] @ ustr '' not found'')))"

text \<open>An entry of the file that has a key and nothing else.\<close>

definition demo_stream :: stream where
  "demo_stream =
     \<lparr>stream_key = Some (ustr ''tech''), stream_display = None, stream_style_primary = None,
      stream_style_secondary = None, stream_has_affiliate = None, stream_keywords = None,
      stream_sources_rss = None, stream_affiliate_url_env = None\<rparr>"

text \<open>A complete entry of the file, for a template with the key "news".\<close>

definition news_stream :: stream where
  "news_stream =
     \<lparr>stream_key = Some (ustr ''news''), stream_display = Some (ustr ''News''),
      stream_style_primary = Some (ustr ''serious''), stream_style_secondary = Some (ustr ''fun''),
      stream_has_affiliate = Some False, stream_keywords = Some [ustr ''news''],
      stream_sources_rss = Some [], stream_affiliate_url_env = None\<rparr>"

section \<open>Script generation (src/services/content_generator.py)\<close>

text \<open>
  The script dictionary; \<open>script_hashtags\<close> and \<open>script_style\<close> are its entries
  \<open>hashtags\<close> and \<open>style\<close>.
\<close>

record VideoScript =
  hook :: pystr
  bullets :: "pystr list"
  twist :: pystr
  cta :: pystr
  script_hashtags :: "pystr list"
  script_style :: pystr
  estimated_duration :: nat

text \<open>
  What the Python runtime knows about characters and the repository does not define:
  which code points \<open>str.strip\<close> and \<open>str.split\<close> treat as whitespace, and
  \<open>str.lower\<close>.  The parser is defined for any such runtime; \<open>ascii_rt\<close> is the one of
  ASCII text.
\<close>

record unicode_rt =
  isspace :: "nat \<Rightarrow> bool"
  lower :: "pystr \<Rightarrow> pystr"

definition ascii_rt :: unicode_rt where
  "ascii_rt =
     \<lparr>isspace = (\<lambda>c. c = 32 \<or> (9 \<le> c \<and> c \<le> 13) \<or> (28 \<le> c \<and> c \<le> 31)),
      lower = map (\<lambda>c. if 65 \<le> c \<and> c \<le> 90 then c + 32 else c)\<rparr>"

text \<open>\<open>xs[i]\<close> for a non-negative index.\<close>

definition py_index :: "'a list \<Rightarrow> nat \<Rightarrow> exn + 'a" where
  "py_index xs i = (if i < length xs then Inr (xs ! i) else Inl IndexError)"

text \<open>\<open>sub in s\<close>\<close>

fun contains :: "'a list \<Rightarrow> 'a list \<Rightarrow> bool" where
  "contains sub [] = (sub = [])"
| "contains sub (x # xs) = (prefix sub (x # xs) \<or> contains sub xs)"

text \<open>\<open>s.strip()\<close>\<close>

definition py_strip :: "unicode_rt \<Rightarrow> pystr \<Rightarrow> pystr" where
  "py_strip rt s = rev (dropWhile (isspace rt) (rev (dropWhile (isspace rt) s)))"

text \<open>\<open>s.split(c)\<close> for a one-character separator: every occurrence splits.\<close>

fun split_on :: "'a \<Rightarrow> 'a list \<Rightarrow> 'a list list" where
  "split_on c [] = [[]]"
| "split_on c (x # xs) =
     (if x = c then [] # split_on c xs
      else (case split_on c xs of [] \<Rightarrow> [[x]] | p # ps \<Rightarrow> (x # p) # ps))"

text \<open>\<open>s.split(c, 1)\<close>: the text before and after the first occurrence, or \<open>[s]\<close>.\<close>

definition split_once :: "'a \<Rightarrow> 'a list \<Rightarrow> 'a list list" where
  "split_once c s =
     (if c \<in> set s then [takeWhile (\<lambda>x. x \<noteq> c) s, tl (dropWhile (\<lambda>x. x \<noteq> c) s)] else [s])"

text \<open>\<open>s.split()\<close>: the maximal runs of characters that are not whitespace.\<close>

fun words_acc :: "(nat \<Rightarrow> bool) \<Rightarrow> pystr \<Rightarrow> pystr \<Rightarrow> pystr list" where
  "words_acc sp cur [] = (if cur = [] then [] else [cur])"
| "words_acc sp cur (c # cs) =
     (if sp c then (if cur = [] then words_acc sp [] cs else cur # words_acc sp [] cs)
      else words_acc sp (cur @ [c]) cs)"

definition py_split :: "unicode_rt \<Rightarrow> pystr \<Rightarrow> pystr list" where
  "py_split rt s = words_acc (isspace rt) [] s"

text \<open>
  The section markers of the parser, in Japanese: "hukku" (hook), "mein kontentsu" (main
  content), "pointo" (point), "tsuisuto" (twist), "koudou kanki" (call to action),
  "hasshutagu" (hashtag), and the middle dot that may start a bullet.
\<close>

definition hook_ja :: pystr where "hook_ja = [0x30D5, 0x30C3, 0x30AF]"
definition main_content_ja :: pystr where "main_content_ja = [0x30E1, 0x30A4, 0x30F3, 0x30B3, 0x30F3, 0x30C6, 0x30F3, 0x30C4]"
definition point_ja :: pystr where "point_ja = [0x30DD, 0x30A4, 0x30F3, 0x30C8]"
definition twist_ja :: pystr where "twist_ja = [0x30C4, 0x30A4, 0x30B9, 0x30C8]"
definition cta_ja :: pystr where "cta_ja = [0x884C, 0x52D5, 0x559A, 0x8D77]"
definition hashtag_ja :: pystr where "hashtag_ja = [0x30CF, 0x30C3, 0x30B7, 0x30E5, 0x30BF, 0x30B0]"
definition middle_dot :: pystr where "middle_dot = [0x30FB]"

datatype script_section = SecHook | SecBullets | SecTwist | SecCta

text \<open>
  The body of \<open>for line in lines\<close> of \<open>_parse_script_response\<close>: the state is the script
  and \<open>current_section\<close>.  The branches are in the order of the source.
\<close>

definition parse_line ::
  "unicode_rt \<Rightarrow> VideoScript \<times> script_section option \<Rightarrow> pystr
     \<Rightarrow> exn + VideoScript \<times> script_section option" where
  "parse_line rt st raw =
     (let sc = fst st; cur = snd st; line = py_strip rt raw in
      if line = [] then Inr st
      else if contains hook_ja line \<or> contains (ustr ''hook'') (lower rt line) then
        (if contains (ustr '':'') line then
           (case py_index (split_once 0x3A line) 1 of
              Inl e \<Rightarrow> Inl e
            | Inr v \<Rightarrow> Inr (sc\<lparr>hook := py_strip rt v\<rparr>, Some SecHook))
         else Inr (sc, Some SecHook))
      else if contains main_content_ja line \<or> contains point_ja line then
        Inr (sc, Some SecBullets)
      else if contains twist_ja line \<or> contains (ustr ''twist'') (lower rt line) then
        (if contains (ustr '':'') line then
           (case py_index (split_once 0x3A line) 1 of
              Inl e \<Rightarrow> Inl e
            | Inr v \<Rightarrow> Inr (sc\<lparr>twist := py_strip rt v\<rparr>, Some SecTwist))
         else Inr (sc, Some SecTwist))
      else if contains (ustr ''CTA'') line \<or> contains cta_ja line then
        (if contains (ustr '':'') line then
           (case py_index (split_once 0x3A line) 1 of
              Inl e \<Rightarrow> Inl e
            | Inr v \<Rightarrow> Inr (sc\<lparr>cta := py_strip rt v\<rparr>, Some SecCta))
         else Inr (sc, Some SecCta))
      else if contains hashtag_ja line \<or> contains (ustr ''#'') line then
        Inr (sc\<lparr>script_hashtags := script_hashtags sc @
                    map (py_strip rt) (filter (prefix (ustr ''#'')) (py_split rt line))\<rparr>,
             cur)
      else if cur = Some SecBullets
              \<and> (prefix (ustr ''1.'') line \<or> prefix (ustr ''2.'') line \<or> prefix (ustr ''3.'') line
                 \<or> prefix (ustr ''-'') line \<or> prefix middle_dot line) then
        (if contains (ustr ''.'') line then
           (case py_index (split_once 0x2E line) 1 of
              Inl e \<Rightarrow> Inl e
            | Inr v \<Rightarrow> Inr (sc\<lparr>bullets := bullets sc @ [py_strip rt v]\<rparr>, cur))
         else Inr (sc\<lparr>bullets := bullets sc @ [py_strip rt (drop 1 line)]\<rparr>, cur))
      else if cur = Some SecHook \<and> hook sc = [] then Inr (sc\<lparr>hook := line\<rparr>, cur)
      else if cur = Some SecTwist \<and> twist sc = [] then Inr (sc\<lparr>twist := line\<rparr>, cur)
      else if cur = Some SecCta \<and> cta sc = [] then Inr (sc\<lparr>cta := line\<rparr>, cur)
      else Inr st)"

fun parse_lines ::
  "unicode_rt \<Rightarrow> VideoScript \<times> script_section option \<Rightarrow> pystr list
     \<Rightarrow> exn + VideoScript \<times> script_section option" where
  "parse_lines rt st [] = Inr st"
| "parse_lines rt st (l # ls) =
     (case parse_line rt st l of Inl e \<Rightarrow> Inl e | Inr st' \<Rightarrow> parse_lines rt st' ls)"

text \<open>\<open>_parse_script_response\<close>: the lines of the stripped response, from the empty script.\<close>

definition parse_script_response :: "unicode_rt \<Rightarrow> pystr \<Rightarrow> CampaignTemplate \<Rightarrow> exn + VideoScript" where
  "parse_script_response rt response template =
     (case parse_lines rt
             (\<lparr>hook = [], bullets = [], twist = [], cta = [], script_hashtags = [],
               script_style = style_primary template, estimated_duration = 25\<rparr>, None)
             (split_on 0x0A (py_strip rt response)) of
        Inl e \<Rightarrow> Inl e
      | Inr st \<Rightarrow> Inr (fst st))"

text \<open>
  \<open>random.sample(population, k)\<close>: \<open>k\<close> elements drawn without replacement;
  \<open>ValueError\<close> when the population is too small.
\<close>

fun random_sample :: "'a list \<Rightarrow> nat \<Rightarrow> (nat \<Rightarrow> nat) \<Rightarrow> exn + 'a list" where
  "random_sample xs 0 rnd = Inr []"
| "random_sample xs (Suc k) rnd =
     (if xs = [] then Inl (ValueError (ustr ''Sample larger than population or is negative''))
      else (case random_sample (take (rnd 0 mod length xs) xs @ drop (Suc (rnd 0 mod length xs)) xs)
                   k (\<lambda>n. rnd (Suc n)) of
              Inl e \<Rightarrow> Inl e
            | Inr ys \<Rightarrow> Inr (xs ! (rnd 0 mod length xs) # ys)))"

text \<open>
  The candidate pools of \<open>_generate_mock_script\<close>.  The hooks embed the display name of
  the template, the first bullet embeds its first keyword.
\<close>

definition mock_hooks :: "pystr \<Rightarrow> pystr list" where
  "mock_hooks d =
     [[0x4ECA, 0x8A71, 0x984C, 0x306E] @ d @ [0x306B, 0x3064, 0x3044, 0x3066, 0x77E5, 0x3063, 0x3066, 0x308B, 0xFF1F],
      [0x3053, 0x308C, 0x306F, 0x77E5, 0x3089, 0x306A, 0x3044, 0x3068, 0x640D, 0x3059,
       0x308B] @ d @ [0x306E, 0x8A71],
      [0x307F, 0x3093, 0x306A, 0xFF01] @ d @ [0x3067, 0x5927, 0x5909, 0x306A, 0x3053, 0x3068, 0x304C, 0x8D77, 0x304D, 0x3066,
       0x308B, 0xFF01]]"

definition mock_bullets :: "pystr \<Rightarrow> pystr list" where
  "mock_bullets kw0 =
     [kw0 @ [0x306E, 0x6700, 0x65B0, 0x60C5, 0x5831, 0x3092, 0x30C1, 0x30A7, 0x30C3, 0x30AF],
      [0x5B9F, 0x306F, 0x3053, 0x3093, 0x306A, 0x30E1, 0x30EA, 0x30C3, 0x30C8, 0x304C,
       0x3042, 0x308B, 0x3093, 0x3067, 0x3059],
      [0x307F, 0x3093, 0x306A, 0x304C, 0x77E5, 0x3089, 0x306A, 0x3044, 0x88CF, 0x6280,
       0x3092, 0x516C, 0x958B]]"

definition mock_twists :: "pystr list" where
  "mock_twists =
     [[0x3067, 0x3082, 0x5B9F, 0x306F, 0x3001, 0x3082, 0x3063, 0x3068, 0x3059, 0x3054,
       0x3044, 0x3053, 0x3068, 0x304C, 0x3042, 0x308B, 0x3093, 0x3067, 0x3059, 0xFF01],
      [0x5B9F, 0x969B, 0x306B, 0x8A66, 0x3057, 0x3066, 0x307F, 0x305F, 0x3089, 0x3001,
       0x4E88, 0x60F3, 0x3092, 0x8D85, 0x3048, 0x308B, 0x7D50, 0x679C, 0x304C, 0x002E,
       0x002E, 0x002E],
      [0x6700, 0x5F8C, 0x306B, 0x3068, 0x3063, 0x3066, 0x304A, 0x304D, 0x306E, 0x60C5,
       0x5831, 0x3092, 0x6559, 0x3048, 0x307E, 0x3059]]"

definition mock_ctas :: "pystr list" where
  "mock_ctas =
     [[0x3042, 0x306A, 0x305F, 0x306F, 0x3069, 0x3046, 0x601D, 0x3046, 0xFF1F, 0x30B3,
       0x30E1, 0x30F3, 0x30C8, 0x3067, 0x6559, 0x3048, 0x3066, 0xFF01],
      [0x7D9A, 0x304D, 0x304C, 0x6C17, 0x306B, 0x306A, 0x308B, 0x4EBA, 0x306F, 0x30D5,
       0x30A9, 0x30ED, 0x30FC, 0x3057, 0x3066, 0x306D],
      [0x3053, 0x306E, 0x60C5, 0x5831, 0x3001, 0x5F79, 0x306B, 0x7ACB, 0x3063, 0x305F,
       0x4EBA, 0x306F, 0x3044, 0x3044, 0x306D, 0xFF01]]"

text \<open>
  \<open>_generate_mock_script\<close>.  Building \<open>mock_bullets\<close> reads \<open>template.keywords[0]\<close>, which
  raises \<open>IndexError\<close> for a template without keywords.  Draw 0 picks the hook, draws 1
  to 3 the order of the bullets, draws 4 and 5 the twist and the call to action, draw 6
  the duration.
\<close>

definition generate_mock_script ::
  "(nat \<Rightarrow> nat) \<Rightarrow> CampaignTemplate \<Rightarrow> ContentType \<Rightarrow> exn + VideoScript" where
  "generate_mock_script rnd template ct =
     (case py_index (template_keywords template) 0 of Inl e \<Rightarrow> Inl e | Inr kw0 \<Rightarrow>
      case random_choice (mock_hooks (display template)) (rnd 0) of Inl e \<Rightarrow> Inl e | Inr h \<Rightarrow>
      case random_sample (mock_bullets kw0) 3 (\<lambda>n. rnd (Suc n)) of Inl e \<Rightarrow> Inl e | Inr bs \<Rightarrow>
      case random_choice mock_twists (rnd 4) of Inl e \<Rightarrow> Inl e | Inr tw \<Rightarrow>
      case random_choice mock_ctas (rnd 5) of Inl e \<Rightarrow> Inl e | Inr c \<Rightarrow>
        Inr \<lparr>hook = h, bullets = bs, twist = tw, cta = c,
             script_hashtags = map (\<lambda>keyword. 0x23 # keyword) (take 3 (template_keywords template)),
             script_style = style_primary template,
             estimated_duration = randint 20 35 (rnd 6)\<rparr>)"

text \<open>
  \<open>generate_script\<close>.  \<open>backend\<close> is \<open>None\<close> when no API key is configured
  (\<open>self.model\<close> is \<open>None\<close>); otherwise it is the outcome of building the prompt and
  calling the model: the exception raised, or the text of the response.  Any exception in
  the \<open>try\<close> block leads to the mock script.
\<close>

definition generate_script ::
  "unicode_rt \<Rightarrow> (exn + pystr) option \<Rightarrow> (nat \<Rightarrow> nat) \<Rightarrow> CampaignTemplate \<Rightarrow> ContentType
     \<Rightarrow> exn + VideoScript" where
  "generate_script rt backend rnd template ct =
     (case backend of
        None \<Rightarrow> generate_mock_script rnd template ct
      | Some (Inl e) \<Rightarrow> generate_mock_script rnd template ct
      | Some (Inr script_content) \<Rightarrow>
          (case parse_script_response rt script_content template of
             Inl e \<Rightarrow> generate_mock_script rnd template ct
           | Inr s \<Rightarrow> Inr s))"

section \<open>Properties of the publishing task\<close>

text \<open>
  C10. With an empty platform list the task returns normally: the loop body, the only
  place where the progress ratio divides by the number of platforms, is never entered;
  the aggregate has \<open>total_platforms = 0\<close>, no per-platform entry and
  \<open>successful_publishes = 0\<close>.
\<close>

theorem publish_to_platforms_empty:
  "publish_to_platforms st cid content [] =
     ([(''SUCCESS'', ''Publishing completed'')],
      Inr \<lparr>campaign_id = cid, platform_results = [], total_platforms = 0,
           successful_publishes = 0, completed_at = ''2024-01-01T00:00:00Z''\<rparr>)"
  by (simp add: publish_to_platforms_def)

text \<open>
  Whenever the content carries a video URL and a listed platform is one of the three known
  ones, the value stored for it is a coroutine and the final count fails on it.
\<close>

lemma count_success_coroutine:
  "Coroutine d \<in> set rs \<Longrightarrow> \<exists>e. count_success rs = Inl e"
  by (induction rs) (auto simp: value_get_def split: sum.splits task_value.splits)

lemma count_success_dicts:
  "count_success (map Dict ds) = Inr (length (filter (\<lambda>d. map_of d ''status'' = Some ''success'') ds))"
  by (induction ds) (simp_all add: value_get_def)

text \<open>
  The loop itself never fails when it is entered with the number of listed platforms: it
  stores one value under each listed platform.
\<close>

lemma publish_loop_eq:
  "tot \<noteq> 0 \<Longrightarrow>
   publish_loop st content tot i ps (events, res) =
     (events @ map (\<lambda>p. (''PROGRESS'', ''Publishing to '' @ p)) ps,
      Inr (foldl (\<lambda>r p. AList.update p (publish_one st content p) r) res ps))"
  by (induction ps arbitrary: i events res) (simp_all add: progress_ok_def)

lemma publish_results_keys:
  "fst ` set (foldl (\<lambda>r p. AList.update p (f p) r) res ps) = fst ` set res \<union> set ps"
  by (induction ps arbitrary: res) (auto simp: dom_update)

lemma publish_results_values:
  "snd ` set (foldl (\<lambda>r p. AList.update p (f p) r) res ps) \<subseteq> snd ` set res \<union> f ` set ps"
proof (induction ps arbitrary: res)
  case Nil
  then show ?case by simp
next
  case (Cons p ps)
  have "snd ` set (AList.update p (f p) res) \<subseteq> snd ` set res \<union> {f p}"
    by (induction res) auto
  with Cons.IH [of "AList.update p (f p) res"] show ?case by auto
qed

lemma count_success_errors:
  "set rs \<subseteq> {Dict [(''status'', ''error''), (''error'', ''No video available'')]} \<Longrightarrow>
   count_success rs = Inr 0"
  by (induction rs) (simp_all add: value_get_def)

text \<open>
  Without a video URL every listed platform gets the "No video available" entry, and the
  aggregate is returned with a count of 0: the count only fails on a coroutine.
\<close>

lemma publish_to_platforms_no_video:
  assumes "\<not> truthy (content_get content ''video_url'')"
  shows "\<exists>events res. publish_to_platforms st cid content ps =
           (events, Inr \<lparr>campaign_id = cid, platform_results = res, total_platforms = length ps,
                         successful_publishes = 0, completed_at = ''2024-01-01T00:00:00Z''\<rparr>)
         \<and> fst ` set res = set ps"
proof (cases "ps = []")
  case True
  then show ?thesis by (simp add: publish_to_platforms_def)
next
  case False
  let ?f = "publish_one st content"
  let ?res = "foldl (\<lambda>r p. AList.update p (?f p) r) [] ps"
  from assms have one: "\<And>p. ?f p = Dict [(''status'', ''error''), (''error'', ''No video available'')]"
    by (auto simp: publish_one_def truthy_def split: option.splits)
  have "snd ` set ?res \<subseteq> ?f ` set ps"
    using publish_results_values [of ?f "[]" ps] by simp
  with one have "set (map snd ?res) \<subseteq> {Dict [(''status'', ''error''), (''error'', ''No video available'')]}"
    by auto
  then have c: "count_success (map snd ?res) = Inr 0"
    by (rule count_success_errors)
  have k: "fst ` set ?res = set ps"
    using publish_results_keys [of ?f "[]" ps] by simp
  from False have "length ps \<noteq> 0" by simp
  from publish_loop_eq [OF this, of st content 0 ps "[]" "[]"] c k
  show ?thesis by (simp add: publish_to_platforms_def)
qed

lemma publish_results_other:
  "p \<notin> set ps \<Longrightarrow> map_of (foldl (\<lambda>r q. AList.update q (f q) r) res ps) p = map_of res p"
  by (induction ps arbitrary: res) (simp_all add: update_conv')

lemma publish_results_lookup:
  "p \<in> set ps \<Longrightarrow> map_of (foldl (\<lambda>r q. AList.update q (f q) r) res ps) p = Some (f p)"
proof (induction ps arbitrary: res)
  case Nil
  then show ?case by simp
next
  case (Cons a ps)
  show ?case
  proof (cases "p \<in> set ps")
    case True
    with Cons.IH show ?thesis by simp
  next
    case False
    with Cons.prems have "p = a" by simp
    with False show ?thesis
      by (simp add: publish_results_other update_conv')
  qed
qed

text \<open>
  With a video URL, any list that names one of the three known platforms makes the task
  fail: the value stored for that platform is a coroutine.
\<close>

lemma publish_to_platforms_known_platform_raises:
  assumes "truthy (content_get content ''video_url'')"
    and "p \<in> set ps"
    and "p = ''tiktok'' \<or> p = ''instagram'' \<or> p = ''youtube''"
  shows "\<exists>events e. publish_to_platforms st cid content ps = (events, Inl e)"
proof -
  let ?f = "publish_one st content"
  let ?res = "foldl (\<lambda>r q. AList.update q (?f q) r) [] ps"
  from assms(1,3) obtain d where d: "?f p = Coroutine d"
    by (auto simp: publish_one_def truthy_def split: option.splits)
  from publish_results_lookup [OF assms(2), of ?f "[]"] d
  have "map_of ?res p = Some (Coroutine d)" by simp
  then have "(p, Coroutine d) \<in> set ?res" by (rule map_of_SomeD)
  then have "Coroutine d \<in> set (map snd ?res)" by force
  then obtain e where e: "count_success (map snd ?res) = Inl e"
    using count_success_coroutine by blast
  from assms(2) have "length ps \<noteq> 0" by auto
  from publish_loop_eq [OF this, of st content 0 ps "[]" "[]"] e
  show ?thesis by (simp add: publish_to_platforms_def)
qed

text \<open>
  C8 (evaluation at the failing input).  One configured platform and a content result
  with a video URL: the task reports its progress, then fails with \<open>AttributeError\<close> in
  the count of successes and re-raises; no aggregate is returned.
\<close>

theorem publish_to_platforms_tiktok_raises:
  "publish_to_platforms
     \<lparr>tiktok_client_key = Some ''key'', instagram_client_id = None, youtube_client_id = None\<rparr>
     ''c1'' [(''video_url'', Some ''https://cdn/video.mp4'')] [''tiktok''] =
   ([(''PROGRESS'', ''Publishing to tiktok''), (''FAILURE'', ''Error in publishing'')],
    Inl (AttributeError (quoted ''coroutine'' @ '' object has no attribute '' @ quoted ''get'')))"
  by (simp add: publish_to_platforms_def progress_ok_def publish_one_def content_get_def
      value_get_def)

section \<open>Publishing for a platform without credentials\<close>

lemma schedule_post_no_client:
  assumes "client_of clients p = None"
  shows "schedule_post clients now rnd p video_url cap hts =
           (Some \<lparr>platform = p, caption = cap @ [CHR 0x0A, CHR 0x0A] @ join_space hts,
                  hashtags = hts,
                  scheduled_time = Some (calculate_scheduled_time now (rnd 0)),
                  posted = True,
                  post_id = Some (''demo_'' @ platform_value p @ ''_'' @ str_nat (randint 1000 9999 (rnd 1)))\<rparr>,
            [])"
  using assms by (cases p) (simp_all add: schedule_post_def Let_def)

text \<open>
  C2 (counterexample).  With no credential configured at all, \<open>schedule_post\<close> for TikTok
  makes no client call, but it does not answer "skipped": it returns a post marked
  \<open>posted = True\<close> with a demo identifier, which is a report of success.
\<close>

theorem schedule_post_unconfigured_reports_posted:
  "client_of (setup_api_clients
       \<lparr>tiktok_client_id = None, instagram_access_token = None, youtube_client_id_app = None\<rparr>) TIKTOK = None
   \<and> schedule_post
       (setup_api_clients
          \<lparr>tiktok_client_id = None, instagram_access_token = None, youtube_client_id_app = None\<rparr>)
       0 (\<lambda>k. 0) TIKTOK ''v.mp4'' ''hello'' [''#AI''] =
     (Some \<lparr>platform = TIKTOK, caption = ''hello'' @ [CHR 0x0A, CHR 0x0A] @ ''#AI'',
            hashtags = [''#AI''], scheduled_time = Some 3600, posted = True,
            post_id = Some ''demo_tiktok_1000''\<rparr>,
      [])"
  by (simp add: schedule_post_def setup_api_clients_def truthy_def Let_def
      calculate_scheduled_time_def randint_def)

lemma client_of_setup:
  "client_of (setup_api_clients cfg) TIKTOK = None \<longleftrightarrow> \<not> truthy (tiktok_client_id cfg)"
  "client_of (setup_api_clients cfg) INSTAGRAM = None \<longleftrightarrow> \<not> truthy (instagram_access_token cfg)"
  "client_of (setup_api_clients cfg) YOUTUBE = None \<longleftrightarrow> \<not> truthy (youtube_client_id_app cfg)"
  by (simp_all add: setup_api_clients_def)

text \<open>
  C2 (as amended).  For a platform without credentials, each method of the task-side
  publisher returns the "skipped" dictionary (whose status is not "success"), and
  \<open>schedule_post\<close> of the poster service calls no platform client; the poster service,
  however, returns a simulated post marked as posted, with a demo identifier.
\<close>

theorem unconfigured_platform_publish:
  "(\<not> truthy (tiktok_client_key st) \<longrightarrow>
      publish_to_tiktok st content v =
        [(''status'', ''skipped''), (''reason'', ''TikTok API not configured'')])
   \<and> (\<not> truthy (instagram_client_id st) \<longrightarrow>
      publish_to_instagram st content v =
        [(''status'', ''skipped''), (''reason'', ''Instagram API not configured'')])
   \<and> (\<not> truthy (youtube_client_id st) \<longrightarrow>
      publish_to_youtube st content v =
        [(''status'', ''skipped''), (''reason'', ''YouTube API not configured'')])
   \<and> (client_of (setup_api_clients cfg) p = None \<longrightarrow>
      snd (schedule_post (setup_api_clients cfg) now rnd p v cap hts) = []
      \<and> map_option posted (fst (schedule_post (setup_api_clients cfg) now rnd p v cap hts)) = Some True
      \<and> map_option post_id (fst (schedule_post (setup_api_clients cfg) now rnd p v cap hts)) =
          Some (Some (''demo_'' @ platform_value p @ ''_'' @ str_nat (randint 1000 9999 (rnd 1)))))"
  by (simp add: publish_to_tiktok_def publish_to_instagram_def publish_to_youtube_def
      schedule_post_no_client)

theorem unconfigured_platform_publish_witness:
  "\<not> truthy (tiktok_client_key \<lparr>tiktok_client_key = None, instagram_client_id = Some '''', youtube_client_id = None\<rparr>)
   \<and> publish_to_tiktok \<lparr>tiktok_client_key = None, instagram_client_id = Some '''', youtube_client_id = None\<rparr>
         [(''video_url'', Some ''v.mp4'')] ''v.mp4'' =
       [(''status'', ''skipped''), (''reason'', ''TikTok API not configured'')]
   \<and> \<not> truthy (instagram_client_id \<lparr>tiktok_client_key = None, instagram_client_id = Some '''', youtube_client_id = None\<rparr>)
   \<and> publish_to_instagram \<lparr>tiktok_client_key = None, instagram_client_id = Some '''', youtube_client_id = None\<rparr>
         [(''video_url'', Some ''v.mp4'')] ''v.mp4'' =
       [(''status'', ''skipped''), (''reason'', ''Instagram API not configured'')]
   \<and> \<not> truthy (youtube_client_id \<lparr>tiktok_client_key = None, instagram_client_id = Some '''', youtube_client_id = None\<rparr>)
   \<and> publish_to_youtube \<lparr>tiktok_client_key = None, instagram_client_id = Some '''', youtube_client_id = None\<rparr>
         [(''video_url'', Some ''v.mp4'')] ''v.mp4'' =
       [(''status'', ''skipped''), (''reason'', ''YouTube API not configured'')]
   \<and> client_of (setup_api_clients
         \<lparr>tiktok_client_id = Some ''id'', instagram_access_token = None, youtube_client_id_app = None\<rparr>) YOUTUBE = None
   \<and> snd (schedule_post (setup_api_clients
         \<lparr>tiktok_client_id = Some ''id'', instagram_access_token = None, youtube_client_id_app = None\<rparr>)
         100 (\<lambda>k. 7) YOUTUBE ''v.mp4'' ''hi'' []) = []
   \<and> map_option posted (fst (schedule_post (setup_api_clients
         \<lparr>tiktok_client_id = Some ''id'', instagram_access_token = None, youtube_client_id_app = None\<rparr>)
         100 (\<lambda>k. 7) YOUTUBE ''v.mp4'' ''hi'' [])) = Some True
   \<and> map_option post_id (fst (schedule_post (setup_api_clients
         \<lparr>tiktok_client_id = Some ''id'', instagram_access_token = None, youtube_client_id_app = None\<rparr>)
         100 (\<lambda>k. 7) YOUTUBE ''v.mp4'' ''hi'' [])) = Some (Some ''demo_youtube_1007'')"
proof -
  let ?st = "\<lparr>tiktok_client_key = None, instagram_client_id = Some '''', youtube_client_id = None\<rparr>"
  let ?cfg = "\<lparr>tiktok_client_id = Some ''id'', instagram_access_token = None, youtube_client_id_app = None\<rparr>"
  have h1: "\<not> truthy (tiktok_client_key ?st)" by (simp add: truthy_def)
  have h2: "\<not> truthy (instagram_client_id ?st)" by (simp add: truthy_def)
  have h3: "\<not> truthy (youtube_client_id ?st)" by (simp add: truthy_def)
  have h4: "client_of (setup_api_clients ?cfg) YOUTUBE = None"
    by (simp add: setup_api_clients_def truthy_def)
  have d: "str_nat (randint 1000 9999 7) = ''1007''"
    by (simp add: randint_def)
  show ?thesis
    using unconfigured_platform_publish
      [of ?st "[(''video_url'', Some ''v.mp4'')]" "''v.mp4''" ?cfg YOUTUBE 100 "\<lambda>k. 7" "''hi''" "[]"]
      h1 h2 h3 h4 d
    by simp
qed

section \<open>Failure of campaign processing\<close>

lemma update_campaign_status_frame:
  "db cid = Some r \<Longrightarrow> unassigned_columns_equal row r \<Longrightarrow>
   \<exists>r'. update_campaign_status now cid st db cid = Some r' \<and> unassigned_columns_equal row r'
        \<and> db_status r' = st \<and> db_updated_at r' = now"
  by (simp add: update_campaign_status_def unassigned_columns_equal_def)

lemma generate_campaign_videos_frame:
  "db cid = Some r \<Longrightarrow> unassigned_columns_equal row r \<Longrightarrow>
   generate_campaign_videos env campaign db = Inr (urls, db') \<Longrightarrow>
   \<exists>r'. db' cid = Some r' \<and> unassigned_columns_equal row r'"
  by (auto simp: generate_campaign_videos_def Let_def unassigned_columns_equal_def
      split: sum.splits option.splits if_splits)

lemma create_social_posts_frame:
  "table s cid = Some r \<Longrightarrow> unassigned_columns_equal row r \<Longrightarrow>
   create_social_posts env campaign urls s = Inr s' \<Longrightarrow>
   \<exists>r'. table s' cid = Some r' \<and> unassigned_columns_equal row r'"
  by (auto simp: create_social_posts_def Let_def unassigned_columns_equal_def
      split: sum.splits option.splits if_splits)

lemma process_campaign_try_frame:
  assumes "table s cid = Some row"
    and "process_campaign_try env cid s = Inl (e, s')"
  shows "\<exists>r'. table s' cid = Some r' \<and> unassigned_columns_equal row r'"
proof -
  have r0: "unassigned_columns_equal row row"
    by (simp add: unassigned_columns_equal_def)
  let ?s1 = "s\<lparr>table := update_campaign_status (utcnow env) cid ''running'' (table s)\<rparr>"
  obtain r1 where r1: "table ?s1 cid = Some r1" "unassigned_columns_equal row r1"
    using update_campaign_status_frame
      [where db = "table s" and cid = cid and r = row and row = row and now = "utcnow env"
         and st = "''running''"] assms(1) r0
    by auto
  show ?thesis
  proof (cases "db_guard env GetCampaign")
    case (Inl a)
    with assms r0 show ?thesis by (auto simp: process_campaign_try_def)
  next
    case g: (Inr u)
    show ?thesis
    proof (cases "db_guard env SetRunning")
      case (Inl a)
      with assms r0 g show ?thesis by (auto simp: process_campaign_try_def)
    next
      case g2: (Inr u2)
      show ?thesis
      proof (cases "generate_campaign_videos env row (table ?s1)")
        case (Inl a)
        with assms g g2 r1 show ?thesis by (auto simp: process_campaign_try_def Let_def)
      next
        case (Inr pr)
        obtain urls db2 where pr: "pr = (urls, db2)" by (cases pr)
        let ?s2 = "?s1\<lparr>table := db2\<rparr>"
        obtain r2 where r2: "table ?s2 cid = Some r2" "unassigned_columns_equal row r2"
          using generate_campaign_videos_frame
            [where db = "table ?s1" and cid = cid and r = r1 and row = row and env = env
               and campaign = row and urls = urls and db' = db2] r1 Inr pr
          by auto
        show ?thesis
        proof (cases "create_social_posts env row urls ?s2")
          case (Inl a)
          with assms g g2 Inr pr r2 show ?thesis
            by (auto simp: process_campaign_try_def Let_def)
        next
          case c: (Inr s3)
          obtain r3 where r3: "table s3 cid = Some r3" "unassigned_columns_equal row r3"
            using create_social_posts_frame
              [where s = ?s2 and cid = cid and r = r2 and row = row and env = env
                 and campaign = row and urls = urls and s' = s3] r2 c
            by auto
          from assms g g2 Inr pr c r3 show ?thesis
            by (auto simp: process_campaign_try_def Let_def split: sum.splits)
        qed
      qed
    qed
  qed
qed

lemma demo_raises: "process_campaign_try (demo_env m) ''c1'' demo_state =
    Inl (RuntimeFault m,
         demo_state\<lparr>table := [''c1'' \<mapsto> demo_row\<lparr>db_status := ''running'', db_updated_at := 500\<rparr>]\<rparr>)"
  by (simp add: process_campaign_try_def db_guard_def demo_env_def demo_state_def
      update_campaign_status_def generate_campaign_videos_def Let_def)

lemma demo_failed: "process_campaign (demo_env m) ''c1'' demo_state =
    (\<lparr>table = [''c1'' \<mapsto> demo_row\<lparr>db_status := ''failed'', db_updated_at := 500\<rparr>],
      logged = [''Error processing campaign c1: '' @ m]\<rparr>, None)"
  by (simp add: process_campaign_def demo_raises Let_def)
     (simp add: db_guard_def demo_env_def demo_state_def update_campaign_status_def)

text \<open>
  Without any fault of the database the same campaign fails as well: its one post has a
  scheduled time, so the commit of the posts raises; the video URLs stay stored.
\<close>

lemma demo_fault_free:
  "process_campaign ((demo_env m)\<lparr>db_fault := (\<lambda>op. None)\<rparr>) ''c1'' demo_state =
    (\<lparr>table = [''c1'' \<mapsto> demo_row\<lparr>db_status := ''failed'', db_updated_at := 500,
                                   db_video_urls := [''https://cdn/v.mp4'']\<rparr>],
      logged = [''Error processing campaign c1: Object of type datetime is not JSON serializable'']\<rparr>,
     None)"
  by (simp add: process_campaign_def process_campaign_try_def db_guard_def demo_env_def
      demo_state_def demo_row_def update_campaign_status_def generate_campaign_videos_def
      create_social_posts_def append_url_def onupdate_def schedule_post_def Let_def)

text \<open>
  C1 (counterexample).  The same campaign fails twice, with two different causes.  Both
  runs end with status "failed", and the stored table is the same in both: the row has the
  twelve columns it had, only the status and the update time differ from the row before
  the run.  Hence no reading of the stored record gives back the cause of the failure:
  the cause is only in the log.
\<close>

theorem failed_campaign_stores_no_cause:
  "raises (demo_env ''connection lost'') ''c1'' demo_state
   \<and> raises (demo_env ''disk full'') ''c1'' demo_state
   \<and> table (fst (process_campaign (demo_env ''connection lost'') ''c1'' demo_state)) =
       [''c1'' \<mapsto> demo_row\<lparr>db_status := ''failed'', db_updated_at := 500\<rparr>]
   \<and> table (fst (process_campaign (demo_env ''disk full'') ''c1'' demo_state)) =
       [''c1'' \<mapsto> demo_row\<lparr>db_status := ''failed'', db_updated_at := 500\<rparr>]
   \<and> logged (fst (process_campaign (demo_env ''connection lost'') ''c1'' demo_state)) =
       [''Error processing campaign c1: connection lost'']
   \<and> logged (fst (process_campaign (demo_env ''disk full'') ''c1'' demo_state)) =
       [''Error processing campaign c1: disk full'']
   \<and> \<not> (\<exists>error_message :: CampaignDB option \<Rightarrow> string option.
          \<forall>m. error_message (table (fst (process_campaign (demo_env m) ''c1'' demo_state)) ''c1'') = Some m)"
proof -
  have "\<not> (\<exists>error_message :: CampaignDB option \<Rightarrow> string option.
          \<forall>m. error_message (table (fst (process_campaign (demo_env m) ''c1'' demo_state)) ''c1'') = Some m)"
  proof
    assume "\<exists>error_message :: CampaignDB option \<Rightarrow> string option.
          \<forall>m. error_message (table (fst (process_campaign (demo_env m) ''c1'' demo_state)) ''c1'') = Some m"
    then obtain f :: "CampaignDB option \<Rightarrow> string option" where
      f: "\<And>m. f (table (fst (process_campaign (demo_env m) ''c1'' demo_state)) ''c1'') = Some m"
      by blast
    from f [of "''connection lost''"] f [of "''disk full''"] show False
      by (simp add: demo_failed)
  qed
  then show ?thesis
    by (simp add: raises_def demo_raises demo_failed)
qed

text \<open>
  C1 (as amended).  When the processing of a stored campaign raises and the handler's own
  status update goes through, the campaign ends with status "failed" and the update time
  of the run; the columns that the processing never assigns are as before; the function
  returns normally; the cause is appended to the log and is not stored in the row.
\<close>

theorem process_campaign_failure_sets_failed:
  assumes "table s cid = Some row"
    and "raises env cid s"
    and "db_fault env SetFailed = None"
  shows "\<exists>r' e s'. process_campaign_try env cid s = Inl (e, s')
           \<and> table (fst (process_campaign env cid s)) cid = Some r'
           \<and> db_status r' = ''failed'' \<and> db_updated_at r' = utcnow env
           \<and> unassigned_columns_equal row r'
           \<and> snd (process_campaign env cid s) = None
           \<and> logged (fst (process_campaign env cid s)) =
               logged s' @ [''Error processing campaign '' @ cid @ '': '' @ str_exn e]"
proof -
  from assms(2) obtain e s' where t: "process_campaign_try env cid s = Inl (e, s')"
    by (auto simp: raises_def split: sum.splits)
  obtain r1 where r1: "table s' cid = Some r1" "unassigned_columns_equal row r1"
    using process_campaign_try_frame [OF assms(1) t] by auto
  let ?s'' = "s'\<lparr>logged := logged s' @ [''Error processing campaign '' @ cid @ '': '' @ str_exn e]\<rparr>"
  have p: "process_campaign env cid s =
      (?s''\<lparr>table := update_campaign_status (utcnow env) cid ''failed'' (table ?s'')\<rparr>, None)"
    using t assms(3) by (simp add: process_campaign_def db_guard_def Let_def)
  obtain r' where r': "update_campaign_status (utcnow env) cid ''failed'' (table s') cid = Some r'"
    "unassigned_columns_equal row r'" "db_status r' = ''failed''" "db_updated_at r' = utcnow env"
    using update_campaign_status_frame
      [where db = "table s'" and cid = cid and r = r1 and row = row and now = "utcnow env"
         and st = "''failed''"] r1
    by auto
  show ?thesis
    using t p r' by simp
qed

theorem process_campaign_failure_sets_failed_witness:
  "table demo_state ''c1'' = Some demo_row
   \<and> raises (demo_env ''connection lost'') ''c1'' demo_state
   \<and> db_fault (demo_env ''connection lost'') SetFailed = None
   \<and> (\<exists>r' e s'. process_campaign_try (demo_env ''connection lost'') ''c1'' demo_state = Inl (e, s')
           \<and> table (fst (process_campaign (demo_env ''connection lost'') ''c1'' demo_state)) ''c1'' = Some r'
           \<and> db_status r' = ''failed'' \<and> db_updated_at r' = utcnow (demo_env ''connection lost'')
           \<and> unassigned_columns_equal demo_row r'
           \<and> snd (process_campaign (demo_env ''connection lost'') ''c1'' demo_state) = None
           \<and> logged (fst (process_campaign (demo_env ''connection lost'') ''c1'' demo_state)) =
               logged s' @ [''Error processing campaign '' @ ''c1'' @ '': '' @ str_exn e])"
proof -
  have h1: "table demo_state ''c1'' = Some demo_row"
    by (simp add: demo_state_def)
  have h2: "raises (demo_env ''connection lost'') ''c1'' demo_state"
    by (simp add: raises_def demo_raises)
  have h3: "db_fault (demo_env ''connection lost'') SetFailed = None"
    by (simp add: demo_env_def)
  from process_campaign_failure_sets_failed [OF h1 h2 h3] h1 h2 h3
  show ?thesis by blast
qed

section \<open>The engagement queue processor\<close>

lemma engage_with_content_returns:
  "\<exists>d. engage_with_content replies rnd cid p pid ty = Inr d"
  by (simp add: engage_with_content_def split: sum.splits)

lemma mark_executed_ids: "map task_id (mark_executed tid r tbl) = map task_id tbl"
  by (induction tbl) (simp_all add: mark_executed_def)

lemma mark_executed_other:
  "x \<in> set (mark_executed tid r tbl) \<Longrightarrow> task_id x \<noteq> tid \<Longrightarrow> x \<in> set tbl"
  by (auto simp: mark_executed_def split: if_splits)

lemma mark_executed_other_rev:
  "x \<in> set tbl \<Longrightarrow> task_id x \<noteq> tid \<Longrightarrow> x \<in> set (mark_executed tid r tbl)"
  by (force simp: mark_executed_def)

lemma mark_executed_hit:
  assumes "x \<in> set (mark_executed tid r tbl)" and "task_id x = tid"
  shows "executed x \<and> task_result x = Some r"
proof -
  from assms(1) obtain y where y: "y \<in> set tbl"
    and x: "x = (if task_id y = tid then y\<lparr>executed := True, task_result := Some r\<rparr> else y)"
    unfolding mark_executed_def by auto
  show ?thesis
  proof (cases "task_id y = tid")
    case True
    with x show ?thesis by simp
  next
    case False
    with x assms(2) show ?thesis by simp
  qed
qed

lemma engagement_loop_ids:
  "map task_id (fst (engagement_loop env i ps (tbl, lg))) = map task_id tbl"
proof (induction ps arbitrary: i tbl lg)
  case Nil
  then show ?case by simp
next
  case (Cons task rest)
  obtain d where d: "engage_with_content (queue_replies env) (queue_draws env i)
      (task_campaign_id task) (StrP (task_platform task)) (task_post_id task) (task_type task) = Inr d"
    using engage_with_content_returns by blast
  show ?case
    by (simp add: d Cons.IH mark_executed_ids)
qed

lemma engagement_loop_other:
  "x \<in> set (fst (engagement_loop env i ps (tbl, lg))) \<Longrightarrow> task_id x \<notin> task_id ` set ps \<Longrightarrow>
   x \<in> set tbl"
proof (induction ps arbitrary: i tbl lg)
  case Nil
  then show ?case by simp
next
  case (Cons task rest)
  obtain d where d: "engage_with_content (queue_replies env) (queue_draws env i)
      (task_campaign_id task) (StrP (task_platform task)) (task_post_id task) (task_type task) = Inr d"
    using engage_with_content_returns by blast
  from Cons.prems have "x \<in> set (fst (engagement_loop env (Suc i) rest
      (mark_executed (task_id task) d tbl, lg @ [''Executed engagement task: '' @ task_id task])))"
    by (simp add: d)
  moreover from Cons.prems have "task_id x \<notin> task_id ` set rest" and ne: "task_id x \<noteq> task_id task"
    by auto
  ultimately have "x \<in> set (mark_executed (task_id task) d tbl)"
    using Cons.IH by blast
  with ne show ?case by (intro mark_executed_other [of x "task_id task" d tbl])
qed

lemma engagement_loop_other_rev:
  "x \<in> set tbl \<Longrightarrow> task_id x \<notin> task_id ` set ps \<Longrightarrow>
   x \<in> set (fst (engagement_loop env i ps (tbl, lg)))"
proof (induction ps arbitrary: i tbl lg)
  case Nil
  then show ?case by simp
next
  case (Cons task rest)
  obtain d where d: "engage_with_content (queue_replies env) (queue_draws env i)
      (task_campaign_id task) (StrP (task_platform task)) (task_post_id task) (task_type task) = Inr d"
    using engage_with_content_returns by blast
  from Cons.prems have r: "task_id x \<notin> task_id ` set rest" and ne: "task_id x \<noteq> task_id task"
    by auto
  from Cons.prems(1) ne have "x \<in> set (mark_executed (task_id task) d tbl)"
    by (intro mark_executed_other_rev)
  then show ?case
    using Cons.IH r by (simp add: d)
qed

text \<open>
  Every row that carries the key of a task of the loop is, after the loop, executed and
  holds the dictionary that \<open>engage_with_content\<close> returned for that task.
\<close>

lemma engagement_loop_marks:
  assumes "distinct (map task_id ps)"
    and "t \<in> set ps"
    and "x \<in> set (fst (engagement_loop env i ps (tbl, lg)))"
    and "task_id x = task_id t"
  shows "executed x \<and>
         (\<exists>j d. engage_with_content (queue_replies env) (queue_draws env j) (task_campaign_id t)
                  (StrP (task_platform t)) (task_post_id t) (task_type t) = Inr d
               \<and> task_result x = Some d)"
  using assms
proof (induction ps arbitrary: i tbl lg)
  case Nil
  then show ?case by simp
next
  case (Cons task rest)
  obtain d where d: "engage_with_content (queue_replies env) (queue_draws env i)
      (task_campaign_id task) (StrP (task_platform task)) (task_post_id task) (task_type task) = Inr d"
    using engage_with_content_returns by blast
  let ?tbl1 = "mark_executed (task_id task) d tbl"
  let ?lg1 = "lg @ [''Executed engagement task: '' @ task_id task]"
  from Cons.prems(3) have x: "x \<in> set (fst (engagement_loop env (Suc i) rest (?tbl1, ?lg1)))"
    by (simp add: d)
  from Cons.prems(1) have dr: "distinct (map task_id rest)" and nr: "task_id task \<notin> task_id ` set rest"
    by auto
  show ?case
  proof (cases "t = task")
    case True
    with Cons.prems(4) nr have "task_id x \<notin> task_id ` set rest" by simp
    with x have "x \<in> set ?tbl1" by (rule engagement_loop_other)
    then have h: "executed x \<and> task_result x = Some d"
      using Cons.prems(4) True by (intro mark_executed_hit) simp_all
    have "\<exists>j d'. engage_with_content (queue_replies env) (queue_draws env j) (task_campaign_id t)
             (StrP (task_platform t)) (task_post_id t) (task_type t) = Inr d'
            \<and> task_result x = Some d'"
      using d True h by (intro exI [of _ i] exI [of _ d]) simp
    with h show ?thesis by simp
  next
    case False
    with Cons.prems(2) have "t \<in> set rest" by simp
    from Cons.IH [OF dr this x Cons.prems(4)] show ?thesis .
  qed
qed

lemma pending_tasks_subset: "set (pending_tasks now tbl) \<subseteq> set tbl"
  by (auto simp: pending_tasks_def dest: in_set_takeD)

lemma pending_tasks_distinct:
  "distinct (map task_id tbl) \<Longrightarrow> distinct (map task_id (pending_tasks now tbl))"
proof -
  assume "distinct (map task_id tbl)"
  then have "distinct (map task_id (filter (\<lambda>t. \<not> executed t \<and> task_scheduled_time t \<le> now) tbl))"
    by (rule distinct_map_filter)
  then have "distinct (take 10 (map task_id (filter (\<lambda>t. \<not> executed t \<and> task_scheduled_time t \<le> now) tbl)))"
    by (rule distinct_take)
  then show ?thesis
    by (simp only: pending_tasks_def take_map)
qed

lemma pending_tasks_filter:
  "t \<in> set (pending_tasks now tbl) \<Longrightarrow> t \<in> set tbl \<and> \<not> executed t \<and> task_scheduled_time t \<le> now"
  by (auto simp: pending_tasks_def dest: in_set_takeD)

lemma process_engagement_queue_ids:
  "map task_id (fst (process_engagement_queue env tbl)) = map task_id tbl"
  by (simp add: process_engagement_queue_def Let_def engagement_loop_ids)

text \<open>Rows keep their key and their position, and an executed row stays executed.\<close>

lemma mark_executed_mono:
  "list_all2 (\<lambda>x y. task_id y = task_id x \<and> (executed x \<longrightarrow> executed y)) tbl (mark_executed tid r tbl)"
  by (simp add: mark_executed_def list_all2_map2 list_all2_same)

lemma engagement_loop_mono:
  "list_all2 (\<lambda>x y. task_id y = task_id x \<and> (executed x \<longrightarrow> executed y)) tbl
     (fst (engagement_loop env i ps (tbl, lg)))"
proof (induction ps arbitrary: i tbl lg)
  case Nil
  then show ?case by (simp add: list_all2_same)
next
  case (Cons task rest)
  obtain d where d: "engage_with_content (queue_replies env) (queue_draws env i)
      (task_campaign_id task) (StrP (task_platform task)) (task_post_id task) (task_type task) = Inr d"
    using engage_with_content_returns by blast
  have "list_all2 (\<lambda>x y. task_id y = task_id x \<and> (executed x \<longrightarrow> executed y)) tbl
          (fst (engagement_loop env (Suc i) rest
             (mark_executed (task_id task) d tbl, lg @ [''Executed engagement task: '' @ task_id task])))"
    by (rule list_all2_trans [OF _ mark_executed_mono Cons.IH]) simp
  then show ?case by (simp add: d)
qed

lemma run_queue_mono:
  "list_all2 (\<lambda>x y. task_id y = task_id x \<and> (executed x \<longrightarrow> executed y)) tbl (run_queue envs tbl)"
proof (induction envs arbitrary: tbl)
  case Nil
  then show ?case by (simp add: list_all2_same)
next
  case (Cons env envs)
  have "list_all2 (\<lambda>x y. task_id y = task_id x \<and> (executed x \<longrightarrow> executed y)) tbl
          (fst (process_engagement_queue env tbl))"
    by (simp add: process_engagement_queue_def Let_def engagement_loop_mono)
  from list_all2_trans [OF _ this Cons.IH] show ?case by simp
qed

lemma executed_never_pending:
  assumes "distinct (map task_id tbl)" and "t \<in> set tbl" and "executed t"
  shows "task_id t \<notin> task_id ` set (pending_tasks now (run_queue envs tbl))"
proof
  let ?tbl' = "run_queue envs tbl"
  assume "task_id t \<in> task_id ` set (pending_tasks now ?tbl')"
  then obtain y where y: "y \<in> set (pending_tasks now ?tbl')" and yt: "task_id y = task_id t"
    by auto
  from y have y_in: "y \<in> set ?tbl'" and y_ne: "\<not> executed y"
    using pending_tasks_filter by blast+
  have m: "list_all2 (\<lambda>x y. task_id y = task_id x \<and> (executed x \<longrightarrow> executed y)) tbl ?tbl'"
    by (rule run_queue_mono)
  from assms(2) obtain k where k: "k < length tbl" "tbl ! k = t"
    by (auto simp: in_set_conv_nth)
  from m k have len: "k < length ?tbl'" and idk: "task_id (?tbl' ! k) = task_id t"
    and exk: "executed (?tbl' ! k)"
    using assms(3) by (auto simp: list_all2_conv_all_nth)
  from m have "map task_id ?tbl' = map task_id tbl"
    by (induction rule: list_all2_induct) simp_all
  with assms(1) have "distinct (map task_id ?tbl')" by simp
  then have "inj_on task_id (set ?tbl')"
    by (simp add: distinct_map)
  moreover from len have "?tbl' ! k \<in> set ?tbl'" by simp
  ultimately have "y = ?tbl' ! k"
    using y_in yt idk by (simp add: inj_on_def)
  with exk y_ne show False by simp
qed

lemma demo_pending: "pending_tasks 100 demo_tasks = [demo_tasks ! 1]"
  by (simp add: pending_tasks_def demo_tasks_def)

lemma demo_run:
  "process_engagement_queue (demo_queue_env 100) demo_tasks =
     ([demo_tasks ! 0,
       (demo_tasks ! 1)\<lparr>executed := True,
          task_result := Some [(''success'', PBool False),
                               (''error'', PStr (quoted ''str'' @ '' object has no attribute '' @ quoted ''value''))]\<rparr>,
       demo_tasks ! 2],
      [''Processing engagement queue...'', ''Executed engagement task: t2'',
       ''Processed 1 engagement tasks''])"
  by (simp add: process_engagement_queue_def Let_def pending_tasks_def demo_tasks_def
      demo_queue_env_def engage_with_content_def auto_reply_def random_choice_def
      mark_executed_def)

text \<open>
  The body of the processor, once it runs: every task that a run selects has, after the
  run, its row marked \<open>executed\<close>, with the dictionary that \<open>engage_with_content\<close>
  returned for it as its result, be it a success or a failure dictionary.  The keys of
  the table are those of before the run.
\<close>

lemma body_marks_selected_tasks:
  assumes "distinct (map task_id tbl)"
    and "t \<in> set (pending_tasks (queue_utcnow env) tbl)"
  shows "map task_id (fst (process_engagement_queue env tbl)) = map task_id tbl
         \<and> (\<exists>x \<in> set (fst (process_engagement_queue env tbl)).
               task_id x = task_id t \<and> executed x
               \<and> (\<exists>j d. engage_with_content (queue_replies env) (queue_draws env j)
                           (task_campaign_id t) (StrP (task_platform t)) (task_post_id t)
                           (task_type t) = Inr d
                         \<and> task_result x = Some d))"
proof -
  let ?ps = "pending_tasks (queue_utcnow env) tbl"
  let ?tbl' = "fst (process_engagement_queue env tbl)"
  have ids: "map task_id ?tbl' = map task_id tbl"
    by (rule process_engagement_queue_ids)
  from assms(2) have "t \<in> set tbl" using pending_tasks_subset by blast
  then have "task_id t \<in> set (map task_id tbl)" by simp
  with ids have "task_id t \<in> set (map task_id ?tbl')" by simp
  then obtain x where x: "x \<in> set ?tbl'" "task_id x = task_id t" by auto
  from x(1) have x': "x \<in> set (fst (engagement_loop env 0 ?ps (tbl, [''Processing engagement queue...''])))"
    by (simp add: process_engagement_queue_def Let_def)
  from engagement_loop_marks [OF pending_tasks_distinct [OF assms(1)] assms(2) x' x(2)] x ids
  show ?thesis by blast
qed

lemma call_process_engagement_queue_fails:
  "call_process_engagement_queue env tbl =
     Inl (SyntaxError (quoted ''await'' @ '' outside async function''))"
  by (simp add: call_process_engagement_queue_def engagement_worker_def compile_function_def)

text \<open>
  C5 (evaluation at the failing input).  A table with a task that is due and not executed:
  the query selects it, and the body, if it ran, would mark it.  The call of the shipped
  function fails with \<open>SyntaxError\<close> when the module is imported, so no run takes place
  and the task is still not executed.
\<close>

theorem shipped_processor_never_marks:
  "pending_tasks (queue_utcnow (demo_queue_env 100)) demo_tasks = [demo_tasks ! 1]
   \<and> \<not> executed (demo_tasks ! 1)
   \<and> executed (fst (process_engagement_queue (demo_queue_env 100) demo_tasks) ! 1)
   \<and> call_process_engagement_queue (demo_queue_env 100) demo_tasks =
       Inl (SyntaxError (quoted ''await'' @ '' outside async function''))"
proof -
  have a: "pending_tasks (queue_utcnow (demo_queue_env 100)) demo_tasks = [demo_tasks ! 1]"
    by (simp add: demo_queue_env_def demo_pending)
  have b: "\<not> executed (demo_tasks ! 1)"
    by (simp add: demo_tasks_def)
  have c: "executed (fst (process_engagement_queue (demo_queue_env 100) demo_tasks) ! 1)"
    by (simp add: demo_run)
  from a b c call_process_engagement_queue_fails show ?thesis by simp
qed



text \<open>
  A task selected by one run is executed after it, hence is not selected by any later run.
\<close>

lemma selected_once:
  assumes "distinct (map task_id tbl)"
    and "t \<in> set (pending_tasks (queue_utcnow env) tbl)"
  shows "task_id t \<notin>
         task_id ` set (pending_tasks now' (run_queue envs (fst (process_engagement_queue env tbl))))"
proof -
  let ?ps = "pending_tasks (queue_utcnow env) tbl"
  let ?tbl' = "fst (process_engagement_queue env tbl)"
  have ids: "map task_id ?tbl' = map task_id tbl"
    by (rule process_engagement_queue_ids)
  with assms(1) have d': "distinct (map task_id ?tbl')" by simp
  from assms(2) have "t \<in> set tbl" using pending_tasks_subset by blast
  then have "task_id t \<in> set (map task_id tbl)" by simp
  with ids have "task_id t \<in> set (map task_id ?tbl')" by simp
  then obtain x where x: "x \<in> set ?tbl'" "task_id x = task_id t" by auto
  from x(1) have x': "x \<in> set (fst (engagement_loop env 0 ?ps (tbl, [''Processing engagement queue...''])))"
    by (simp add: process_engagement_queue_def Let_def)
  from engagement_loop_marks [OF pending_tasks_distinct [OF assms(1)] assms(2) x' x(2)]
  have "executed x" by simp
  from executed_never_pending [OF d' x(1) this] x(2) show ?thesis by simp
qed

section \<open>Regeneration of campaign content\<close>

lemma regenerate_existing:
  assumes "campaigns_db st cid = Some c"
  shows "regenerate_campaign_content now tid cid st =
           Inr (st\<lparr>enqueued := enqueued st @
                        [(tid, \<lparr>tc_id = cid, tc_template_key = template_key (config c),
                                tc_content_type = content_type_value (content_type (config c)),
                                tc_platforms = map platform_value (platforms (config c)),
                                tc_video_config = video_config (config c)\<rparr>)],
                    campaigns_db := (campaigns_db st)(cid \<mapsto> c\<lparr>status := PROCESSING, updated_at := now\<rparr>)\<rparr>,
                [(''campaign_id'', cid), (''task_id'', tid), (''status'', ''processing'')])"
  using assms by (simp add: regenerate_campaign_content_def Let_def)

lemma regenerations_keep:
  assumes "campaigns_db st cid = Some c"
  shows "\<exists>st' c'. regenerations reqs cid st = Inr st' \<and> campaigns_db st' cid = Some c'
           \<and> c'\<lparr>status := PROCESSING, updated_at := 0\<rparr> = c\<lparr>status := PROCESSING, updated_at := 0\<rparr>
           \<and> (reqs \<noteq> [] \<longrightarrow> status c' = PROCESSING \<and> updated_at c' = fst (last reqs))"
  using assms
proof (induction reqs arbitrary: st c)
  case Nil
  then show ?case by simp
next
  case (Cons rq reqs)
  obtain now tid where rq: "rq = (now, tid)" by (cases rq)
  let ?c1 = "c\<lparr>status := PROCESSING, updated_at := now\<rparr>"
  obtain st1 resp where st1: "regenerate_campaign_content now tid cid st = Inr (st1, resp)"
    and db1: "campaigns_db st1 cid = Some ?c1"
    using regenerate_existing [OF Cons.prems, of now tid] by simp
  from Cons.IH [OF db1] obtain st' c' where
    r: "regenerations reqs cid st1 = Inr st'" "campaigns_db st' cid = Some c'"
      "c'\<lparr>status := PROCESSING, updated_at := 0\<rparr> = ?c1\<lparr>status := PROCESSING, updated_at := 0\<rparr>"
      "reqs \<noteq> [] \<longrightarrow> status c' = PROCESSING \<and> updated_at c' = fst (last reqs)"
    by blast
  show ?case
  proof (cases "reqs = []")
    case True
    with r st1 rq db1 show ?thesis by simp
  next
    case False
    with r st1 rq show ?thesis by simp
  qed
qed

text \<open>
  C7.  A regenerate request for a stored campaign succeeds, hands one content-generation
  task to the queue, and replaces the stored campaign by the same campaign with status
  \<open>PROCESSING\<close> and the new update time: no other field, and no other campaign, is
  touched.  In particular \<open>published_urls\<close> is not cleared, neither by one request nor by
  any sequence of requests, after which all fields but the status and the update time
  are those of before.
\<close>

theorem regenerate_changes_status_and_time_only:
  assumes "campaigns_db st cid = Some c"
  shows "(\<exists>tc. regenerate_campaign_content now tid cid st =
            Inr (st\<lparr>enqueued := enqueued st @ [(tid, tc)],
                     campaigns_db := (campaigns_db st)(cid \<mapsto> c\<lparr>status := PROCESSING, updated_at := now\<rparr>)\<rparr>,
                 [(''campaign_id'', cid), (''task_id'', tid), (''status'', ''processing'')]))
         \<and> published_urls (c\<lparr>status := PROCESSING, updated_at := now\<rparr>) = published_urls c
         \<and> (\<exists>st' c'. regenerations ((now, tid) # reqs) cid st = Inr st'
               \<and> campaigns_db st' cid = Some c'
               \<and> status c' = PROCESSING
               \<and> c' = c\<lparr>status := PROCESSING, updated_at := updated_at c'\<rparr>
               \<and> published_urls c' = published_urls c)"
proof -
  from regenerations_keep [OF assms, of "(now, tid) # reqs"] obtain st' c' where
    r: "regenerations ((now, tid) # reqs) cid st = Inr st'" "campaigns_db st' cid = Some c'"
      "c'\<lparr>status := PROCESSING, updated_at := 0\<rparr> = c\<lparr>status := PROCESSING, updated_at := 0\<rparr>"
      "status c' = PROCESSING"
    by auto
  from r(3) have "(c'\<lparr>status := PROCESSING, updated_at := 0\<rparr>)\<lparr>updated_at := updated_at c'\<rparr>
      = (c\<lparr>status := PROCESSING, updated_at := 0\<rparr>)\<lparr>updated_at := updated_at c'\<rparr>"
    by simp
  moreover from r(4) have "c'\<lparr>status := PROCESSING\<rparr> = c'"
    by (cases c') simp
  ultimately have eq: "c' = c\<lparr>status := PROCESSING, updated_at := updated_at c'\<rparr>"
    by simp
  then have "published_urls c' = published_urls (c\<lparr>status := PROCESSING, updated_at := updated_at c'\<rparr>)"
    by simp
  then have pu: "published_urls c' = published_urls c" by simp
  show ?thesis
    using regenerate_existing [OF assms, of now tid] r(1,2,4) eq pu by auto
qed

theorem regenerate_changes_status_and_time_only_witness:
  "campaigns_db demo_launcher ''c1'' = Some demo_campaign
   \<and> (\<exists>tc. regenerate_campaign_content 300 ''task-1'' ''c1'' demo_launcher =
            Inr (demo_launcher\<lparr>enqueued := enqueued demo_launcher @ [(''task-1'', tc)],
                     campaigns_db := (campaigns_db demo_launcher)
                        (''c1'' \<mapsto> demo_campaign\<lparr>status := PROCESSING, updated_at := 300\<rparr>)\<rparr>,
                 [(''campaign_id'', ''c1''), (''task_id'', ''task-1''), (''status'', ''processing'')]))
   \<and> published_urls (demo_campaign\<lparr>status := PROCESSING, updated_at := 300\<rparr>) =
       [(''tiktok'', ''https://tiktok.com/@user/video/1'')]
   \<and> (\<exists>st' c'. regenerations [(300, ''task-1''), (400, ''task-2'')] ''c1'' demo_launcher = Inr st'
         \<and> campaigns_db st' ''c1'' = Some c'
         \<and> status c' = PROCESSING
         \<and> c' = demo_campaign\<lparr>status := PROCESSING, updated_at := updated_at c'\<rparr>
         \<and> published_urls c' = [(''tiktok'', ''https://tiktok.com/@user/video/1'')])"
proof -
  have h: "campaigns_db demo_launcher ''c1'' = Some demo_campaign"
    by (simp add: demo_launcher_def)
  have p: "published_urls demo_campaign = [(''tiktok'', ''https://tiktok.com/@user/video/1'')]"
    by (simp add: demo_campaign_def)
  from regenerate_changes_status_and_time_only [OF h, of 300 "''task-1''" "[(400, ''task-2'')]"] h p
  show ?thesis by simp
qed

section \<open>Template lookup\<close>

lemma first_with_key_None: "first_with_key k ts = None \<longleftrightarrow> k \<notin> key ` set ts"
  by (induction ts) auto

lemma first_with_key_Some: "first_with_key k ts = Some t \<Longrightarrow> t \<in> set ts \<and> key t = k"
  by (induction ts) (auto split: if_splits)

lemma default_keys:
  "map key get_default_templates = [ustr ''mnp'', ustr ''anime'', ustr ''tech'']"
  by (simp add: get_default_templates_def)

lemma default_keys_distinct: "distinct (map key get_default_templates)"
  by (simp add: default_keys ustr_def)

lemma first_with_key_distinct:
  "distinct (map key ts) \<Longrightarrow> t \<in> set ts \<Longrightarrow> first_with_key (key t) ts = Some t"
  by (induction ts) (auto simp: rev_image_eqI)

lemma load_templates_fallback:
  "load_templates FileNotFoundError = get_default_templates"
  "load_templates LoadError = get_default_templates"
  "templates_of_streams ss = Inl e \<Longrightarrow> load_templates (Streams ss) = get_default_templates"
  by (simp_all add: load_templates_def)

lemma tech_lookup:
  "get_template_by_key FileNotFoundError (ustr ''tech'') = Inr (get_default_templates ! 2)"
  "key (get_default_templates ! 2) = ustr ''tech''"
  "display (get_default_templates ! 2) = [0x30C6, 0x30C3, 0x30AF, 0x002F, 0x30AC, 0x30B8, 0x30A7, 0x30C3, 0x30C8]"
  "style_primary (get_default_templates ! 2) = ustr ''tech''"
  by (simp_all add: get_template_by_key_def load_templates_def get_default_templates_def ustr_def)

lemma news_loaded:
  "load_templates (Streams [news_stream]) =
     [\<lparr>key = ustr ''news'', display = ustr ''News'', style_primary = ustr ''serious'',
       style_secondary = ustr ''fun'', has_affiliate = False, template_keywords = [ustr ''news''],
       sources_rss = [], affiliate_url_env = None\<rparr>]"
  by (simp add: load_templates_def news_stream_def template_of_stream_def subscript_def)

lemma tech_in_defaults:
  "get_default_templates ! 2 \<in> set get_default_templates"
  by (simp add: get_default_templates_def)

text \<open>
  C4 (counterexample).  The configuration file loads and holds one template, "news".  The
  key "tech" is a key of the built-in (fallback) set, yet the lookup of "tech" fails with
  the not-found \<open>ValueError\<close>: the built-in set is not consulted when the file loads.
\<close>

theorem lookup_of_fallback_key_fails_when_file_loads:
  "ustr ''tech'' \<in> key ` set get_default_templates
   \<and> load_templates (Streams [news_stream]) =
       [\<lparr>key = ustr ''news'', display = ustr ''News'', style_primary = ustr ''serious'',
         style_secondary = ustr ''fun'', has_affiliate = False, template_keywords = [ustr ''news''],
         sources_rss = [], affiliate_url_env = None\<rparr>]
   \<and> get_template_by_key (Streams [news_stream]) (ustr ''tech'') =
       Inl (ValueError (ustr ''Template with key '' @ [0x27] @ ustr ''tech'' @ [0x27] @ ustr '' not found''))"
proof -
  have "ustr ''tech'' \<in> set (map key get_default_templates)"
    by (simp add: default_keys)
  then have "ustr ''tech'' \<in> key ` set get_default_templates" by simp
  moreover have "get_template_by_key (Streams [news_stream]) (ustr ''tech'') =
       Inl (ValueError (ustr ''Template with key '' @ [0x27] @ ustr ''tech'' @ [0x27] @ ustr '' not found''))"
    by (simp add: get_template_by_key_def news_loaded ustr_def)
  ultimately show ?thesis using news_loaded by simp
qed

text \<open>
  C4 (as amended).  Lookup is over the set that \<open>load_templates\<close> returns: the templates
  of the file when it loads, the built-in (fallback) set when the file is missing, when
  loading raises, or when an entry of the file lacks a key.  A key that is not in the
  returned set fails with the not-found \<open>ValueError\<close>; a key in it succeeds with a
  template of that key.  Whenever the built-in set is the one returned, every one of its
  keys gives back its own template, and "tech" gives the template with the display name
  "tekku/gajetto" (in katakana) and primary style "tech".  The built-in set holds that
  template and has three templates.
\<close>

theorem template_lookup_by_key:
  "(k \<notin> key ` set (load_templates f) \<longrightarrow>
      get_template_by_key f k =
        Inl (ValueError (ustr ''Template with key '' @ [0x27] @ k @ [0x27] @ ustr '' not found'')))
   \<and> (k \<in> key ` set (load_templates f) \<longrightarrow>
      (\<exists>t \<in> set (load_templates f). key t = k \<and> get_template_by_key f k = Inr t))
   \<and> load_templates FileNotFoundError = get_default_templates
   \<and> load_templates LoadError = get_default_templates
   \<and> (templates_of_streams ss = Inl e \<longrightarrow> load_templates (Streams ss) = get_default_templates)
   \<and> (load_templates f = get_default_templates \<longrightarrow>
        (\<forall>t \<in> set get_default_templates. get_template_by_key f (key t) = Inr t)
        \<and> (\<exists>t. get_template_by_key f (ustr ''tech'') = Inr t
              \<and> key t = ustr ''tech''
              \<and> display t = [0x30C6, 0x30C3, 0x30AF, 0x002F, 0x30AC, 0x30B8, 0x30A7, 0x30C3, 0x30C8]
              \<and> style_primary t = ustr ''tech''))
   \<and> (\<exists>t \<in> set get_default_templates.
         key t = ustr ''tech''
         \<and> display t = [0x30C6, 0x30C3, 0x30AF, 0x002F, 0x30AC, 0x30B8, 0x30A7, 0x30C3, 0x30C8]
         \<and> style_primary t = ustr ''tech'')
   \<and> 3 \<le> length get_default_templates"
proof -
  have a: "k \<notin> key ` set (load_templates f) \<longrightarrow>
      get_template_by_key f k =
        Inl (ValueError (ustr ''Template with key '' @ [0x27] @ k @ [0x27] @ ustr '' not found''))"
    by (auto simp: get_template_by_key_def first_with_key_None [symmetric])
  have b: "k \<in> key ` set (load_templates f) \<longrightarrow>
      (\<exists>t \<in> set (load_templates f). key t = k \<and> get_template_by_key f k = Inr t)"
  proof
    assume "k \<in> key ` set (load_templates f)"
    then have "first_with_key k (load_templates f) \<noteq> None"
      by (simp add: first_with_key_None)
    then obtain t where t: "first_with_key k (load_templates f) = Some t" by auto
    with first_with_key_Some [OF t] show
      "\<exists>t \<in> set (load_templates f). key t = k \<and> get_template_by_key f k = Inr t"
      by (auto simp: get_template_by_key_def)
  qed
  have c: "load_templates f = get_default_templates \<longrightarrow>
        (\<forall>t \<in> set get_default_templates. get_template_by_key f (key t) = Inr t)"
    using first_with_key_distinct [OF default_keys_distinct]
    by (simp add: get_template_by_key_def)
  have c': "templates_of_streams ss = Inl e \<longrightarrow> load_templates (Streams ss) = get_default_templates"
    by (simp add: load_templates_fallback)
  have d: "\<exists>t \<in> set get_default_templates.
         key t = ustr ''tech''
         \<and> display t = [0x30C6, 0x30C3, 0x30AF, 0x002F, 0x30AC, 0x30B8, 0x30A7, 0x30C3, 0x30C8]
         \<and> style_primary t = ustr ''tech''"
    using tech_in_defaults tech_lookup(2,3,4) by blast
  have d': "load_templates f = get_default_templates \<longrightarrow>
        (\<exists>t. get_template_by_key f (ustr ''tech'') = Inr t
              \<and> key t = ustr ''tech''
              \<and> display t = [0x30C6, 0x30C3, 0x30AF, 0x002F, 0x30AC, 0x30B8, 0x30A7, 0x30C3, 0x30C8]
              \<and> style_primary t = ustr ''tech'')"
  proof
    assume l: "load_templates f = get_default_templates"
    with c tech_in_defaults
    have "get_template_by_key f (key (get_default_templates ! 2)) = Inr (get_default_templates ! 2)"
      by blast
    with tech_lookup(2,3,4) show "\<exists>t. get_template_by_key f (ustr ''tech'') = Inr t
              \<and> key t = ustr ''tech''
              \<and> display t = [0x30C6, 0x30C3, 0x30AF, 0x002F, 0x30AC, 0x30B8, 0x30A7, 0x30C3, 0x30C8]
              \<and> style_primary t = ustr ''tech''"
      by simp
  qed
  have e: "3 \<le> length get_default_templates"
    by (simp add: get_default_templates_def)
  from a b c c' d d' e load_templates_fallback(1,2) show ?thesis by blast
qed

theorem template_lookup_by_key_witness:
  "ustr ''nonexistent'' \<notin> key ` set (load_templates FileNotFoundError)
   \<and> get_template_by_key FileNotFoundError (ustr ''nonexistent'') =
       Inl (ValueError (ustr ''Template with key '' @ [0x27] @ ustr ''nonexistent'' @ [0x27] @ ustr '' not found''))
   \<and> ustr ''news'' \<in> key ` set (load_templates (Streams [news_stream]))
   \<and> (\<exists>t \<in> set (load_templates (Streams [news_stream])). key t = ustr ''news''
         \<and> get_template_by_key (Streams [news_stream]) (ustr ''news'') = Inr t)
   \<and> templates_of_streams [demo_stream] = Inl (KeyError ''display'')
   \<and> load_templates (Streams [demo_stream]) = get_default_templates
   \<and> get_default_templates ! 0 \<in> set get_default_templates
   \<and> get_template_by_key (Streams [demo_stream]) (key (get_default_templates ! 0)) =
       Inr (get_default_templates ! 0)
   \<and> (\<exists>t. get_template_by_key (Streams [demo_stream]) (ustr ''tech'') = Inr t
         \<and> key t = ustr ''tech''
         \<and> display t = [0x30C6, 0x30C3, 0x30AF, 0x002F, 0x30AC, 0x30B8, 0x30A7, 0x30C3, 0x30C8]
         \<and> style_primary t = ustr ''tech'')"
proof -
  have h1: "ustr ''nonexistent'' \<notin> key ` set (load_templates FileNotFoundError)"
    using default_keys by (simp add: load_templates_fallback ustr_def flip: set_map)
  have h2: "ustr ''news'' \<in> key ` set (load_templates (Streams [news_stream]))"
    by (simp add: news_loaded)
  have h3: "get_default_templates ! 0 \<in> set get_default_templates"
    by (simp add: get_default_templates_def)
  have h4: "templates_of_streams [demo_stream] = Inl (KeyError ''display'')"
    by (simp add: demo_stream_def template_of_stream_def subscript_def)
  from template_lookup_by_key [of "ustr ''nonexistent''" FileNotFoundError "[demo_stream]" "KeyError ''display''"]
    template_lookup_by_key [of "ustr ''news''" "Streams [news_stream]" "[demo_stream]" "KeyError ''display''"]
    template_lookup_by_key [of "ustr ''news''" "Streams [demo_stream]" "[demo_stream]" "KeyError ''display''"]
    h1 h2 h3 h4
  show ?thesis by blast
qed

section \<open>The fallback script\<close>

lemma random_choice_member:
  "xs \<noteq> [] \<Longrightarrow> \<exists>x \<in> set xs. random_choice xs r = Inr x"
  by (simp add: random_choice_def)

lemma random_sample_length:
  "k \<le> length xs \<Longrightarrow>
   \<exists>ys. random_sample xs k rnd = Inr ys \<and> length ys = k \<and> set ys \<subseteq> set xs"
proof (induction k arbitrary: xs rnd)
  case 0
  then show ?case by simp
next
  case (Suc k)
  let ?i = "rnd 0 mod length xs"
  let ?rest = "take ?i xs @ drop (Suc ?i) xs"
  from Suc.prems have ne: "xs \<noteq> []" by auto
  then have i: "?i < length xs" by simp
  then have "length ?rest = length xs - 1" by simp
  with Suc.prems have "k \<le> length ?rest" by simp
  from Suc.IH [OF this, of "\<lambda>n. rnd (Suc n)"] obtain ys where
    ys: "random_sample ?rest k (\<lambda>n. rnd (Suc n)) = Inr ys" "length ys = k" "set ys \<subseteq> set ?rest"
    by blast
  have "set ?rest \<subseteq> set xs"
    using set_take_subset [of ?i xs] set_drop_subset [of "Suc ?i" xs] by auto
  with ys(3) have sub: "set ys \<subseteq> set xs" by blast
  from i have "xs ! ?i \<in> set xs" by simp
  with ys(1,2) sub ne show ?case by simp
qed

lemma mock_hooks_nonempty: "h \<in> set (mock_hooks d) \<Longrightarrow> h \<noteq> []"
  by (auto simp: mock_hooks_def)

lemma mock_twists_nonempty: "x \<in> set mock_twists \<Longrightarrow> x \<noteq> []"
  by (auto simp: mock_twists_def)

lemma mock_ctas_nonempty: "x \<in> set mock_ctas \<Longrightarrow> x \<noteq> []"
  by (auto simp: mock_ctas_def)

lemma generate_mock_script_populated:
  assumes "template_keywords t \<noteq> []"
  shows "\<exists>s. generate_mock_script rnd t ct = Inr s
           \<and> hook s \<in> set (mock_hooks (display t))
           \<and> length (bullets s) = 3
           \<and> set (bullets s) \<subseteq> set (mock_bullets (template_keywords t ! 0))
           \<and> twist s \<in> set mock_twists
           \<and> cta s \<in> set mock_ctas
           \<and> script_hashtags s = map (\<lambda>keyword. 0x23 # keyword) (take 3 (template_keywords t))
           \<and> script_style s = style_primary t
           \<and> estimated_duration s = randint 20 35 (rnd 6)"
proof -
  from assms have k: "py_index (template_keywords t) 0 = Inr (template_keywords t ! 0)"
    by (simp add: py_index_def)
  obtain h where h: "h \<in> set (mock_hooks (display t))"
      "random_choice (mock_hooks (display t)) (rnd 0) = Inr h"
    using random_choice_member [of "mock_hooks (display t)" "rnd 0"]
    by (auto simp: mock_hooks_def)
  obtain bs where bs: "random_sample (mock_bullets (template_keywords t ! 0)) 3 (\<lambda>n. rnd (Suc n)) = Inr bs"
      "length bs = 3" "set bs \<subseteq> set (mock_bullets (template_keywords t ! 0))"
    using random_sample_length [of 3 "mock_bullets (template_keywords t ! 0)" "\<lambda>n. rnd (Suc n)"]
    by (auto simp: mock_bullets_def)
  obtain tw where tw: "tw \<in> set mock_twists" "random_choice mock_twists (rnd 4) = Inr tw"
    using random_choice_member [of mock_twists "rnd 4"] by (auto simp: mock_twists_def)
  obtain c where c: "c \<in> set mock_ctas" "random_choice mock_ctas (rnd 5) = Inr c"
    using random_choice_member [of mock_ctas "rnd 5"] by (auto simp: mock_ctas_def)
  show ?thesis
    using h bs tw c by (simp add: generate_mock_script_def k)
qed

lemma generate_mock_script_no_keywords:
  "template_keywords t = [] \<Longrightarrow> generate_mock_script rnd t ct = Inl IndexError"
  by (simp add: generate_mock_script_def py_index_def)

text \<open>
  C3 (counterexample).  The built-in "tech" template with its keyword list emptied, and no
  backend: \<open>generate_script\<close> returns no script, it raises \<open>IndexError\<close>.
\<close>

theorem generate_script_without_keywords_raises:
  "generate_script ascii_rt None (\<lambda>n. 0) ((get_default_templates ! 2)\<lparr>template_keywords := []\<rparr>)
     AI_PRODUCT_REACTION = Inl IndexError"
  by (simp add: generate_script_def generate_mock_script_no_keywords)

text \<open>
  C3 (as amended).  For every template with at least one keyword and every content type,
  when no backend is configured or the backend call raises, \<open>generate_script\<close> returns
  a script with a non-empty hook, exactly three bullets (taken from the pool), a non-empty
  twist, a non-empty call to action, and the hashtags of the first three keywords, of
  which there is at least one; the style is the template's primary style and the
  estimated duration lies between 20 and 35.
\<close>

theorem fallback_script_populated:
  assumes "template_keywords t \<noteq> []"
  shows "\<exists>s. generate_script rt None rnd t ct = Inr s
           \<and> generate_script rt (Some (Inl e)) rnd t ct = Inr s
           \<and> hook s \<noteq> []
           \<and> length (bullets s) = 3
           \<and> set (bullets s) \<subseteq> set (mock_bullets (template_keywords t ! 0))
           \<and> twist s \<noteq> []
           \<and> cta s \<noteq> []
           \<and> script_hashtags s = map (\<lambda>keyword. 0x23 # keyword) (take 3 (template_keywords t))
           \<and> script_hashtags s \<noteq> []
           \<and> script_style s = style_primary t
           \<and> 20 \<le> estimated_duration s \<and> estimated_duration s \<le> 35"
proof -
  from generate_mock_script_populated [OF assms, of rnd ct] obtain s where
    s: "generate_mock_script rnd t ct = Inr s"
      "hook s \<in> set (mock_hooks (display t))"
      "length (bullets s) = 3"
      "set (bullets s) \<subseteq> set (mock_bullets (template_keywords t ! 0))"
      "twist s \<in> set mock_twists"
      "cta s \<in> set mock_ctas"
      "script_hashtags s = map (\<lambda>keyword. 0x23 # keyword) (take 3 (template_keywords t))"
      "script_style s = style_primary t"
      "estimated_duration s = randint 20 35 (rnd 6)"
    by blast
  have g: "generate_script rt None rnd t ct = Inr s"
      "generate_script rt (Some (Inl e)) rnd t ct = Inr s"
    using s(1) by (simp_all add: generate_script_def)
  have ne: "hook s \<noteq> []" "twist s \<noteq> []" "cta s \<noteq> []"
    using s(2,5,6) mock_hooks_nonempty mock_twists_nonempty mock_ctas_nonempty by blast+
  have ht: "script_hashtags s \<noteq> []"
    using assms s(7) by simp
  have "rnd 6 mod 16 < 16" by simp
  then have du: "20 \<le> estimated_duration s \<and> estimated_duration s \<le> 35"
    using s(9) by (simp add: randint_def)
  from g ne ht du s(3,4,7,8) show ?thesis by blast
qed

theorem fallback_script_populated_witness:
  "template_keywords (get_default_templates ! 2) \<noteq> []
   \<and> (\<exists>s. generate_script ascii_rt None (\<lambda>n. n) (get_default_templates ! 2) AI_PRODUCT_REACTION = Inr s
         \<and> generate_script ascii_rt (Some (Inl (RuntimeFault ''quota''))) (\<lambda>n. n)
              (get_default_templates ! 2) AI_PRODUCT_REACTION = Inr s
         \<and> hook s \<noteq> []
         \<and> length (bullets s) = 3
         \<and> set (bullets s) \<subseteq> set (mock_bullets (template_keywords (get_default_templates ! 2) ! 0))
         \<and> twist s \<noteq> []
         \<and> cta s \<noteq> []
         \<and> script_hashtags s =
             map (\<lambda>keyword. 0x23 # keyword) (take 3 (template_keywords (get_default_templates ! 2)))
         \<and> script_hashtags s \<noteq> []
         \<and> script_style s = style_primary (get_default_templates ! 2)
         \<and> 20 \<le> estimated_duration s \<and> estimated_duration s \<le> 35)"
proof -
  have h: "template_keywords (get_default_templates ! 2) \<noteq> []"
    by (simp add: get_default_templates_def)
  from fallback_script_populated [OF h] h show ?thesis by blast
qed

section \<open>The response parser\<close>

lemma contains_single: "contains [c] s \<longleftrightarrow> c \<in> set s"
  by (induction s) auto

lemma py_index_split_once:
  "c \<in> set s \<Longrightarrow> py_index (split_once c s) (Suc 0) = Inr (tl (dropWhile (\<lambda>x. x \<noteq> c) s))"
  by (simp add: py_index_def split_once_def)

lemma words_acc_nospace:
  "list_all (\<lambda>c. \<not> sp c) cur \<Longrightarrow> list_all (list_all (\<lambda>c. \<not> sp c)) (words_acc sp cur s)"
  by (induction s arbitrary: cur) simp_all

lemma dropWhile_snoc_keep:
  "\<not> P c \<Longrightarrow> \<exists>ys. dropWhile P (zs @ [c]) = ys @ [c]"
  by (induction zs) auto

lemma py_strip_keeps_first:
  assumes "\<not> isspace rt c"
  shows "prefix [c] (py_strip rt (c # w))"
proof -
  from assms have "dropWhile (isspace rt) (c # w) = c # w" by simp
  moreover obtain ys where "dropWhile (isspace rt) (rev w @ [c]) = ys @ [c]"
    using dropWhile_snoc_keep [of "isspace rt" c "rev w"] assms by blast
  ultimately show ?thesis by (simp add: py_strip_def)
qed

lemma hashtag_token:
  assumes "w \<in> set (py_split rt line)" and "prefix [0x23] w"
  shows "prefix [0x23] (py_strip rt w)"
proof -
  from assms(2) obtain w' where w': "w = 0x23 # w'" by (auto simp: prefix_def)
  have "list_all (list_all (\<lambda>c. \<not> isspace rt c)) (py_split rt line)"
    unfolding py_split_def by (rule words_acc_nospace) simp
  with assms(1) have "list_all (\<lambda>c. \<not> isspace rt c) w"
    by (simp add: list_all_iff)
  with w' have "\<not> isspace rt 0x23" by simp
  from py_strip_keeps_first [OF this] w' show ?thesis by simp
qed

lemma ustr_literals:
  "ustr '':'' = [0x3A]" "ustr ''.'' = [0x2E]" "ustr ''#'' = [0x23]"
  by (simp_all add: ustr_def)

text \<open>
  One line never raises, leaves the style and the duration alone, and only adds hashtags
  that start with the hash sign.
\<close>

lemma parse_line_inv:
  assumes "\<forall>h \<in> set (script_hashtags (fst st)). prefix [0x23] h"
  shows "\<exists>st'. parse_line rt st raw = Inr st'
           \<and> script_style (fst st') = script_style (fst st)
           \<and> estimated_duration (fst st') = estimated_duration (fst st)
           \<and> (\<forall>h \<in> set (script_hashtags (fst st')). prefix [0x23] h)"
proof -
  have branch: "\<And>b x y.
      (b \<Longrightarrow> \<exists>st'. x = Inr st'
           \<and> script_style (fst st') = script_style (fst st)
           \<and> estimated_duration (fst st') = estimated_duration (fst st)
           \<and> (\<forall>h \<in> set (script_hashtags (fst st')). prefix [0x23] h)) \<Longrightarrow>
      (\<not> b \<Longrightarrow> \<exists>st'. y = Inr st'
           \<and> script_style (fst st') = script_style (fst st)
           \<and> estimated_duration (fst st') = estimated_duration (fst st)
           \<and> (\<forall>h \<in> set (script_hashtags (fst st')). prefix [0x23] h)) \<Longrightarrow>
      \<exists>st'. (if b then x else y) = Inr st'
           \<and> script_style (fst st') = script_style (fst st)
           \<and> estimated_duration (fst st') = estimated_duration (fst st)
           \<and> (\<forall>h \<in> set (script_hashtags (fst st')). prefix [0x23] h)"
    by simp
  show ?thesis
    unfolding parse_line_def Let_def ustr_literals contains_single
    apply (intro branch)
    using assms apply (simp_all add: py_index_split_once)
    apply (blast intro: hashtag_token)
    done
qed

lemma parse_lines_inv:
  assumes "\<forall>h \<in> set (script_hashtags (fst st)). prefix [0x23] h"
  shows "\<exists>st'. parse_lines rt st ls = Inr st'
           \<and> script_style (fst st') = script_style (fst st)
           \<and> estimated_duration (fst st') = estimated_duration (fst st)
           \<and> (\<forall>h \<in> set (script_hashtags (fst st')). prefix [0x23] h)"
  using assms
proof (induction ls arbitrary: st)
  case Nil
  then show ?case by simp
next
  case (Cons l ls)
  from parse_line_inv [OF Cons.prems, of rt l] obtain st1 where
    st1: "parse_line rt st l = Inr st1"
      "script_style (fst st1) = script_style (fst st)"
      "estimated_duration (fst st1) = estimated_duration (fst st)"
      "\<forall>h \<in> set (script_hashtags (fst st1)). prefix [0x23] h"
    by blast
  from Cons.IH [OF st1(4)] st1(1,2,3) show ?case by auto
qed

lemma parse_line_unrecognized:
  assumes "\<not> contains hook_ja (py_strip rt raw)"
    and "\<not> contains (ustr ''hook'') (lower rt (py_strip rt raw))"
    and "\<not> contains main_content_ja (py_strip rt raw)"
    and "\<not> contains point_ja (py_strip rt raw)"
    and "\<not> contains twist_ja (py_strip rt raw)"
    and "\<not> contains (ustr ''twist'') (lower rt (py_strip rt raw))"
    and "\<not> contains (ustr ''CTA'') (py_strip rt raw)"
    and "\<not> contains cta_ja (py_strip rt raw)"
    and "\<not> contains hashtag_ja (py_strip rt raw)"
    and "\<not> contains (ustr ''#'') (py_strip rt raw)"
  shows "parse_line rt (sc, None) raw = Inr (sc, None)"
  using assms by (simp add: parse_line_def Let_def)

lemma parse_empty_response:
  "parse_script_response rt [] t =
     Inr \<lparr>hook = [], bullets = [], twist = [], cta = [], script_hashtags = [],
          script_style = style_primary t, estimated_duration = 25\<rparr>"
  by (simp add: parse_script_response_def py_strip_def parse_line_def)

text \<open>A response with a hook line, a line that matches nothing, and a hashtag line.\<close>

lemma demo_parse:
  "parse_script_response ascii_rt
     (ustr ''Hook: Wow'' @ [0x0A] @ ustr ''zzz'' @ [0x0A] @ ustr ''#a b #c'')
     (get_default_templates ! 2) =
   Inr \<lparr>hook = ustr ''Wow'', bullets = [], twist = [], cta = [],
        script_hashtags = [ustr ''#a'', ustr ''#c''],
        script_style = ustr ''tech'', estimated_duration = 25\<rparr>"
  by (simp add: parse_script_response_def py_strip_def parse_line_def ascii_rt_def ustr_def
      hook_ja_def main_content_ja_def point_ja_def twist_ja_def cta_ja_def hashtag_ja_def
      middle_dot_def py_index_def split_once_def py_split_def get_default_templates_def Let_def)

lemma demo_unrecognized:
  "\<not> contains hook_ja (py_strip ascii_rt (ustr '' zzz ''))"
  "\<not> contains (ustr ''hook'') (lower ascii_rt (py_strip ascii_rt (ustr '' zzz '')))"
  "\<not> contains main_content_ja (py_strip ascii_rt (ustr '' zzz ''))"
  "\<not> contains point_ja (py_strip ascii_rt (ustr '' zzz ''))"
  "\<not> contains twist_ja (py_strip ascii_rt (ustr '' zzz ''))"
  "\<not> contains (ustr ''twist'') (lower ascii_rt (py_strip ascii_rt (ustr '' zzz '')))"
  "\<not> contains (ustr ''CTA'') (py_strip ascii_rt (ustr '' zzz ''))"
  "\<not> contains cta_ja (py_strip ascii_rt (ustr '' zzz ''))"
  "\<not> contains hashtag_ja (py_strip ascii_rt (ustr '' zzz ''))"
  "\<not> contains (ustr ''#'') (py_strip ascii_rt (ustr '' zzz ''))"
  by (simp_all add: py_strip_def ascii_rt_def ustr_def hook_ja_def main_content_ja_def
      point_ja_def twist_ja_def cta_ja_def hashtag_ja_def)

text \<open>
  C9.  For every response text and every template the parser returns a script (it never
  raises): the script has all seven fields, its style is the template's primary style,
  its estimated duration is 25, and every hashtag in it starts with the hash sign.
  Fields may stay empty: for the empty response all of them are.  A line that carries
  none of the markers, met before any section header, is ignored.
\<close>

theorem parse_script_response_total:
  "(\<exists>s. parse_script_response rt response t = Inr s
        \<and> script_style s = style_primary t
        \<and> estimated_duration s = 25
        \<and> (\<forall>h \<in> set (script_hashtags s). prefix (ustr ''#'') h))
   \<and> parse_script_response rt [] t =
       Inr \<lparr>hook = [], bullets = [], twist = [], cta = [], script_hashtags = [],
            script_style = style_primary t, estimated_duration = 25\<rparr>
   \<and> (\<not> contains hook_ja (py_strip rt raw)
        \<and> \<not> contains (ustr ''hook'') (lower rt (py_strip rt raw))
        \<and> \<not> contains main_content_ja (py_strip rt raw)
        \<and> \<not> contains point_ja (py_strip rt raw)
        \<and> \<not> contains twist_ja (py_strip rt raw)
        \<and> \<not> contains (ustr ''twist'') (lower rt (py_strip rt raw))
        \<and> \<not> contains (ustr ''CTA'') (py_strip rt raw)
        \<and> \<not> contains cta_ja (py_strip rt raw)
        \<and> \<not> contains hashtag_ja (py_strip rt raw)
        \<and> \<not> contains (ustr ''#'') (py_strip rt raw)
      \<longrightarrow> parse_line rt (sc, None) raw = Inr (sc, None))"
proof -
  let ?init = "(\<lparr>hook = [], bullets = [], twist = [], cta = [], script_hashtags = [],
                 script_style = style_primary t, estimated_duration = 25\<rparr>, None :: script_section option)"
  have "\<forall>h \<in> set (script_hashtags (fst ?init)). prefix [0x23] h" by simp
  from parse_lines_inv [OF this, of rt "split_on 0x0A (py_strip rt response)"]
  obtain st' where st': "parse_lines rt ?init (split_on 0x0A (py_strip rt response)) = Inr st'"
      "script_style (fst st') = style_primary t" "estimated_duration (fst st') = 25"
      "\<forall>h \<in> set (script_hashtags (fst st')). prefix [0x23] h"
    by auto
  then have a: "\<exists>s. parse_script_response rt response t = Inr s
        \<and> script_style s = style_primary t
        \<and> estimated_duration s = 25
        \<and> (\<forall>h \<in> set (script_hashtags s). prefix (ustr ''#'') h)"
    by (simp add: parse_script_response_def ustr_literals)
  from a parse_empty_response parse_line_unrecognized show ?thesis by blast
qed

theorem parse_script_response_total_witness:
  "parse_script_response ascii_rt
     (ustr ''Hook: Wow'' @ [0x0A] @ ustr ''zzz'' @ [0x0A] @ ustr ''#a b #c'')
     (get_default_templates ! 2) =
   Inr \<lparr>hook = ustr ''Wow'', bullets = [], twist = [], cta = [],
        script_hashtags = [ustr ''#a'', ustr ''#c''],
        script_style = ustr ''tech'', estimated_duration = 25\<rparr>
   \<and> list_all (prefix (ustr ''#'')) [ustr ''#a'', ustr ''#c'']
   \<and> \<not> contains hook_ja (py_strip ascii_rt (ustr '' zzz ''))
   \<and> \<not> contains (ustr ''#'') (py_strip ascii_rt (ustr '' zzz ''))
   \<and> parse_line ascii_rt
        (\<lparr>hook = [], bullets = [], twist = [], cta = [], script_hashtags = [],
          script_style = ustr ''tech'', estimated_duration = 25\<rparr>, None)
        (ustr '' zzz '') =
       Inr (\<lparr>hook = [], bullets = [], twist = [], cta = [], script_hashtags = [],
             script_style = ustr ''tech'', estimated_duration = 25\<rparr>, None)"
proof -
  let ?resp = "ustr ''Hook: Wow'' @ [0x0A] @ ustr ''zzz'' @ [0x0A] @ ustr ''#a b #c''"
  let ?sc = "\<lparr>hook = [], bullets = [], twist = [], cta = [], script_hashtags = [],
          script_style = ustr ''tech'', estimated_duration = 25\<rparr>"
  from parse_script_response_total [of ascii_rt ?resp "get_default_templates ! 2" "ustr '' zzz ''" ?sc]
  have t1: "\<exists>s. parse_script_response ascii_rt ?resp (get_default_templates ! 2) = Inr s
        \<and> (\<forall>h \<in> set (script_hashtags s). prefix (ustr ''#'') h)"
    and t2: "parse_line ascii_rt (?sc, None) (ustr '' zzz '') = Inr (?sc, None)"
    using demo_unrecognized by blast+
  from t1 obtain s where s: "parse_script_response ascii_rt ?resp (get_default_templates ! 2) = Inr s"
      "\<forall>h \<in> set (script_hashtags s). prefix (ustr ''#'') h"
    by blast
  from s(1) demo_parse have "script_hashtags s = [ustr ''#a'', ustr ''#c'']"
    by auto
  with s(2) have "list_all (prefix (ustr ''#'')) [ustr ''#a'', ustr ''#c'']"
    by (simp add: list_all_iff)
  with t2 demo_parse demo_unrecognized(1,10) show ?thesis by simp
qed

end
